theory Spec2Isabelle
  imports Main
begin

section \<open>The gateway sketch \<^verbatim>\<open>sketch_piV3_apr18b.ino\<close> as state-passing functions\<close>

text \<open>
  The sketch keeps its state in global variables and acts on the world through the debug
  serial port (\<^verbatim>\<open>Serial\<close>), the device link (\<^verbatim>\<open>Serial1\<close>), the MQTT client, the
  power-control pin 12 and \<^verbatim>\<open>delay\<close>. Every function of the sketch becomes a function
  from the state to the state; the state carries the globals, the level of pin 12, whether
  the MQTT session is up, and the ordered trace of everything the sketch did to the world.
\<close>

subsection \<open>Effects and state\<close>

datatype level = LOW | HIGH

datatype effect =
    SerialPrint string              \<comment> \<open>\<^verbatim>\<open>Serial.print(x)\<close>, debug port\<close>
  | SerialPrintln string            \<comment> \<open>\<^verbatim>\<open>Serial.println(x)\<close>, debug port\<close>
  | Serial1Print string             \<comment> \<open>\<^verbatim>\<open>Serial1.print(x)\<close>, a write on the device link\<close>
  | Serial1Flush                    \<comment> \<open>\<^verbatim>\<open>Serial1.flush()\<close>\<close>
  | MqttPublish string string       \<comment> \<open>topic and text of one \<^verbatim>\<open>beginMessage/print/endMessage\<close>\<close>
  | MqttSubscribe string            \<comment> \<open>\<^verbatim>\<open>mqttClient.subscribe(t)\<close>\<close>
  | PinModeOutput nat               \<comment> \<open>\<^verbatim>\<open>pinMode(p, OUTPUT)\<close>\<close>
  | SerialBegin nat                 \<comment> \<open>\<^verbatim>\<open>Serial.begin(baud)\<close>\<close>
  | Serial1Begin nat                \<comment> \<open>\<^verbatim>\<open>Serial1.begin(baud)\<close>\<close>
  | WiFiBegin string                \<comment> \<open>\<^verbatim>\<open>WiFi.begin(ssid, pass)\<close>\<close>
  | DigitalWrite nat level          \<comment> \<open>\<^verbatim>\<open>digitalWrite(p, v)\<close>\<close>
  | Delay nat                       \<comment> \<open>\<^verbatim>\<open>delay(ms)\<close>, a blocking wait\<close>

record state =
  piPowered :: bool
  piReady :: bool
  pendingCommand :: string
  hasPendingCommand :: bool
  textBuffer :: "char list"          \<comment> \<open>\<^verbatim>\<open>char textBuffer[128]\<close>\<close>
  textBufferIndex :: nat             \<comment> \<open>\<^verbatim>\<open>int textBufferIndex\<close>, never negative\<close>
  pin12 :: level                     \<comment> \<open>the level last driven on the power-control pin\<close>
  mqttConnected :: bool              \<comment> \<open>what \<^verbatim>\<open>mqttClient.connected()\<close> answers\<close>
  trace :: "effect list"             \<comment> \<open>every effect so far, oldest first\<close>

text \<open>\<^verbatim>\<open>char topic[] = "status"\<close>, and \<^verbatim>\<open>sizeof(textBuffer)\<close>.\<close>

definition topic :: string where
  "topic = ''status''"

definition sizeof_textBuffer :: nat where
  "sizeof_textBuffer = 128"

definition NUL :: char where
  "NUL = CHR 0x00"

definition LF :: char where
  "LF = CHR 0x0A"

definition CR :: char where
  "CR = CHR 0x0D"

subsection \<open>The Arduino core functions the sketch calls\<close>

definition emit :: "effect \<Rightarrow> state \<Rightarrow> state" where
  "emit e s = s\<lparr>trace := trace s @ [e]\<rparr>"

definition Serial_print :: "string \<Rightarrow> state \<Rightarrow> state" where
  "Serial_print x s = emit (SerialPrint x) s"

definition Serial_println :: "string \<Rightarrow> state \<Rightarrow> state" where
  "Serial_println x s = emit (SerialPrintln x) s"

definition Serial1_print :: "string \<Rightarrow> state \<Rightarrow> state" where
  "Serial1_print x s = emit (Serial1Print x) s"

definition Serial1_flush :: "state \<Rightarrow> state" where
  "Serial1_flush s = emit Serial1Flush s"

definition delay :: "nat \<Rightarrow> state \<Rightarrow> state" where
  "delay ms s = emit (Delay ms) s"

text \<open>The sketch only ever writes pin 12; the state remembers the level it was given.\<close>

definition digitalWrite :: "nat \<Rightarrow> level \<Rightarrow> state \<Rightarrow> state" where
  "digitalWrite p v s =
     (let s = emit (DigitalWrite p v) s
      in if p = 12 then s\<lparr>pin12 := v\<rparr> else s)"

text \<open>
  \<^verbatim>\<open>memset(textBuffer, 0, sizeof(textBuffer))\<close>.
\<close>

definition memset_textBuffer :: "state \<Rightarrow> state" where
  "memset_textBuffer s = s\<lparr>textBuffer := replicate sizeof_textBuffer NUL\<rparr>"

text \<open>
  \<^verbatim>\<open>String(const char *)\<close> reads a C string: the bytes before the first NUL.
\<close>

definition cstring :: "char list \<Rightarrow> string" where
  "cstring buf = takeWhile (\<lambda>c. c \<noteq> NUL) buf"

text \<open>
  \<^verbatim>\<open>isspace\<close> in the C locale (space, and the control characters 9 to 13), and
  \<^verbatim>\<open>String::trim\<close>, which removes such characters from both ends.
\<close>

definition isspace :: "char \<Rightarrow> bool" where
  "isspace c = (of_char c = (32::nat) \<or> (9 \<le> (of_char c :: nat) \<and> (of_char c :: nat) \<le> 13))"

definition trim :: "string \<Rightarrow> string" where
  "trim x = rev (dropWhile isspace (rev (dropWhile isspace x)))"

text \<open>
  \<^verbatim>\<open>String::startsWith\<close> and \<^verbatim>\<open>String::indexOf(String)\<close> (\<open>-1\<close> when absent). The
  latter is \<^verbatim>\<open>strstr\<close> on the buffer of the string, so it searches the bytes before the
  first NUL only; a payload read from the bus byte by byte may hold one.
\<close>

definition startsWith :: "string \<Rightarrow> string \<Rightarrow> bool" where
  "startsWith x p = (take (length p) x = p)"

fun indexOf_from :: "nat \<Rightarrow> string \<Rightarrow> string \<Rightarrow> int" where
  "indexOf_from i [] p = (if p = [] then int i else - 1)"
| "indexOf_from i (c # cs) p =
     (if startsWith (c # cs) p then int i else indexOf_from (Suc i) cs p)"

definition indexOf :: "string \<Rightarrow> string \<Rightarrow> int" where
  "indexOf x p = indexOf_from 0 (cstring x) p"

text \<open>
  \<^verbatim>\<open>String(int)\<close>: the decimal text of an integer, with a leading minus sign when negative.
\<close>

definition digit_char :: "nat \<Rightarrow> char" where
  "digit_char d = char_of (48 + d)"

fun dec_nat :: "nat \<Rightarrow> string" where
  "dec_nat n = (if n < 10 then [digit_char n] else dec_nat (n div 10) @ [digit_char (n mod 10)])"

declare dec_nat.simps [simp del]

definition String_int :: "int \<Rightarrow> string" where
  "String_int i = (if i < 0 then CHR ''-'' # dec_nat (nat (- i)) else dec_nat (nat i))"

text \<open>
  \<^verbatim>\<open>String::toInt\<close> is \<^verbatim>\<open>atol\<close>: leading white space is skipped, an optional sign is read,
  then decimal digits up to the first other character; no digits give 0. The boards that
  run WiFiNINA have a 32-bit \<^verbatim>\<open>long\<close> and \<^verbatim>\<open>int\<close>, and their \<^verbatim>\<open>strtol\<close> saturates.
\<close>

definition isdigit :: "char \<Rightarrow> bool" where
  "isdigit c = (48 \<le> (of_char c :: nat) \<and> (of_char c :: nat) \<le> 57)"

fun digits_value :: "int \<Rightarrow> string \<Rightarrow> int" where
  "digits_value acc [] = acc"
| "digits_value acc (c # cs) =
     (if isdigit c then digits_value (10 * acc + (int (of_char c) - 48)) cs else acc)"

definition saturate_long :: "int \<Rightarrow> int" where
  "saturate_long v = max (- 2147483648) (min 2147483647 v)"

definition toInt :: "string \<Rightarrow> int" where
  "toInt x =
     (case dropWhile isspace x of
        [] \<Rightarrow> 0
      | c # cs \<Rightarrow>
          if c = CHR ''-'' then saturate_long (- digits_value 0 cs)
          else if c = CHR ''+'' then saturate_long (digits_value 0 cs)
          else saturate_long (digits_value 0 (c # cs)))"

text \<open>\<^verbatim>\<open>strcmp\<close> on two C strings: zero exactly when they are equal.\<close>

fun strcmp :: "string \<Rightarrow> string \<Rightarrow> int" where
  "strcmp [] [] = 0"
| "strcmp [] (b # bs) = - int (of_char b)"
| "strcmp (a # as) [] = int (of_char a)"
| "strcmp (a # as) (b # bs) =
     (if a = b then strcmp as bs else int (of_char a) - int (of_char b))"

subsection \<open>The JSON library, as a parameter\<close>

text \<open>
  \<^verbatim>\<open>deserializeJson\<close> belongs to ArduinoJson, not to the sketch. The handlers take it as a
  parameter: it answers either an error text (\<^verbatim>\<open>error.f_str()\<close>) or the three members the
  sketch reads. \<^verbatim>\<open>doc["command"]\<close> is a null pointer when the member is missing or not a
  string; \<^verbatim>\<open>doc["code"]\<close> and \<^verbatim>\<open>doc["duration_estimate"]\<close> are 0 then. What \<^verbatim>\<open>strcmp\<close>
  answers on a null pointer is not defined by C, so it is a parameter as well.
\<close>

record json_doc =
  doc_command :: "string option"       \<comment> \<open>\<^verbatim>\<open>doc["command"]\<close>, \<open>None\<close> for the null pointer\<close>
  doc_code :: int                      \<comment> \<open>\<^verbatim>\<open>doc["code"]\<close>\<close>
  doc_duration_estimate :: int         \<comment> \<open>\<^verbatim>\<open>doc["duration_estimate"]\<close>\<close>

record library =
  deserializeJson :: "string \<Rightarrow> string + json_doc"
  strcmp_null :: int

subsection \<open>\<^verbatim>\<open>publishStatus\<close>, \<^verbatim>\<open>sendToPi\<close> and the power functions\<close>

definition publishStatus :: "string \<Rightarrow> state \<Rightarrow> state" where
  "publishStatus message s =
     (if mqttConnected s then
        (let s = emit (MqttPublish topic message) s;
             s = Serial_println (''Published: '' @ message) s
         in s)
      else s)"

definition sendToPi :: "string \<Rightarrow> state \<Rightarrow> state" where
  "sendToPi command s =
     (if \<not> piReady s then
        (let s = Serial_println ''Cannot send command, Pi not ready'' s;
             s = publishStatus ''Command failed, Pi not ready'' s
         in if piPowered s then
              (let s = s\<lparr>pendingCommand := command\<rparr>;
                   s = s\<lparr>hasPendingCommand := True\<rparr>;
                   s = publishStatus (''Command queued: '' @ command) s
               in s)
            else s)
      else
        (let command = command @ [LF];
             s = Serial_print ''Sending command to Pi: '' s;
             s = Serial_print command s;
             s = Serial1_print command s;
             s = Serial1_flush s;
             s = publishStatus (''Command sent to Pi: '' @ command) s
         in s))"

definition reply101 :: "state \<Rightarrow> state" where
  "reply101 s =
     (let s = publishStatus ''301'' s;
          s = Serial_println ''Status reported: 301'' s
      in s)"

definition turnonpi :: "state \<Rightarrow> state" where
  "turnonpi s =
     (if \<not> piPowered s then
        (let s = Serial_println ''Turning on Pi'' s;
             s = digitalWrite 12 LOW s;
             s = publishStatus ''Pi Booting'' s;
             s = s\<lparr>piPowered := True\<rparr>;
             s = s\<lparr>piReady := False\<rparr>
         in s)
      else
        (let s = Serial_println ''Pi is already powered on'' s;
             s = publishStatus ''Pi is already powered on'' s
         in s))"

definition statuspi :: "state \<Rightarrow> state" where
  "statuspi s =
     (let s = Serial_println ''Requesting Pi status'' s;
          s = sendToPi ''103'' s
      in s)"

definition shutdownpi :: "state \<Rightarrow> state" where
  "shutdownpi s =
     (let s = Serial_println ''Sending shutdown command to Pi'' s;
          s = sendToPi ''104'' s;
          s = s\<lparr>piReady := False\<rparr>;
          s = publishStatus ''Pi shutting down, communication disabled'' s;
          s = delay 25000 s;
          s = digitalWrite 12 HIGH s;
          s = s\<lparr>piPowered := False\<rparr>;
          s = publishStatus ''Pi power off'' s
      in s)"

subsection \<open>\<^verbatim>\<open>processTextMessage\<close>: one line from the device\<close>

definition processTextMessage :: "string \<Rightarrow> state \<Rightarrow> state" where
  "processTextMessage message s =
     (let messageStr = trim message;
          s = Serial_print ''Text message from Pi: '' s;
          s = Serial_println messageStr s
      in if indexOf messageStr ''Pi ready'' \<ge> 0 \<or> indexOf messageStr ''READY'' \<ge> 0 then
           (let s = s\<lparr>piReady := True\<rparr>;
                s = s\<lparr>piPowered := True\<rparr>;
                s = Serial_println ''Pi is now ready for communication!'' s;
                s = publishStatus ''Pi is ready for communication'' s
            in if hasPendingCommand s then
                 (let s = Serial_println ''Sending pending command to Pi'' s;
                      s = sendToPi (pendingCommand s) s;
                      s = s\<lparr>hasPendingCommand := False\<rparr>;
                      s = s\<lparr>pendingCommand := []\<rparr>
                  in s)
               else s)
         else if startsWith messageStr ''103_ACK'' then
           (let s = Serial_println ''Received status acknowledgment from Pi'' s;
                s = publishStatus (''Pi status received: '' @ messageStr) s
            in s)
         else if startsWith messageStr ''104_ACK'' then
           (let s = Serial_println ''Received shutdown acknowledgment from Pi'' s;
                s = publishStatus (''Pi shutdown acknowledged: '' @ messageStr) s;
                s = s\<lparr>piReady := False\<rparr>
            in s)
         else if startsWith messageStr ''105_NOAA15'' \<or>
                 startsWith messageStr ''106_NOAA18'' \<or>
                 startsWith messageStr ''107_NOAA19'' \<or>
                 startsWith messageStr ''108_ISS'' then
           (let s = Serial_println (''Received satellite recording ACK: '' @ messageStr) s;
                s = publishStatus (''Recording started: '' @ messageStr) s
            in s)
         else if startsWith messageStr ''UPLOAD_SUCCESS'' then
           (let s = Serial_println (''File upload success: '' @ messageStr) s;
                s = publishStatus (''File uploaded to Google Drive: '' @ messageStr) s
            in s)
         else if startsWith messageStr ''SHUTDOWN_INITIATED'' then
           (let s = Serial_println (''Pi shutdown initiated: '' @ messageStr) s;
                s = publishStatus (''Pi shutting down: '' @ messageStr) s;
                s = s\<lparr>piReady := False\<rparr>;
                s = delay 95000 s;
                s = digitalWrite 12 HIGH s;
                s = s\<lparr>piPowered := False\<rparr>
            in s)
         else if startsWith messageStr ''UNKNOWN_CODE'' then
           (let s = Serial_println (''Pi reported unknown command: '' @ messageStr) s;
                s = publishStatus (''Command not recognized by Pi: '' @ messageStr) s
            in s)
         else
           (let s = Serial_println (''Unrecognized message from Pi: '' @ messageStr) s;
                s = publishStatus (''Pi message: '' @ messageStr) s
            in s))"

subsection \<open>\<^verbatim>\<open>checkPiMessages\<close>: the bytes waiting on the device link\<close>

text \<open>
  The body of the \<^verbatim>\<open>while (Serial1.available() > 0)\<close> loop, for the byte \<open>inChar\<close> that
  \<^verbatim>\<open>Serial1.read()\<close> returned. A byte outside the accepted set leaves the state alone.
\<close>

definition checkPiMessages_body :: "char \<Rightarrow> state \<Rightarrow> state" where
  "checkPiMessages_body inChar s =
     (if ((of_char inChar :: nat) \<ge> 32 \<and> (of_char inChar :: nat) \<le> 126)
          \<or> (of_char inChar :: nat) = 10 \<or> (of_char inChar :: nat) = 13 then
        (if textBufferIndex s < sizeof_textBuffer - 1 then
           (let s = s\<lparr>textBuffer := (textBuffer s)[textBufferIndex s := inChar]\<rparr>;
                s = s\<lparr>textBufferIndex := textBufferIndex s + 1\<rparr>
            in if (of_char inChar :: nat) = 10 \<or> (of_char inChar :: nat) = 13 then
                 (let s = s\<lparr>textBuffer := (textBuffer s)[textBufferIndex s := NUL]\<rparr>;
                      s = processTextMessage (cstring (textBuffer s)) s;
                      s = memset_textBuffer s;
                      s = s\<lparr>textBufferIndex := 0\<rparr>
                  in s)
               else s)
         else
           (let s = Serial_println ''Text buffer overflow, resetting'' s;
                s = memset_textBuffer s;
                s = s\<lparr>textBufferIndex := 0\<rparr>
            in s))
      else s)"

text \<open>The loop itself runs the body on each waiting byte, in order of arrival.\<close>

fun checkPiMessages :: "char list \<Rightarrow> state \<Rightarrow> state" where
  "checkPiMessages [] s = s"
| "checkPiMessages (inChar # rest) s = checkPiMessages rest (checkPiMessages_body inChar s)"

subsection \<open>\<^verbatim>\<open>processJsonMessage\<close> and \<^verbatim>\<open>onMqttMessage\<close>: one message from the bus\<close>

text \<open>
  The condition of the \<^verbatim>\<open>if\<close> at line 353, on the value \<open>r\<close> that \<^verbatim>\<open>strcmp\<close> returned.
\<close>

definition power_on_guard :: "int \<Rightarrow> int \<Rightarrow> bool" where
  "power_on_guard r code = (r = 0 \<and> code \<noteq> 102)"

definition strcmp_command :: "library \<Rightarrow> string option \<Rightarrow> string \<Rightarrow> int" where
  "strcmp_command L command x =
     (case command of None \<Rightarrow> strcmp_null L | Some c \<Rightarrow> strcmp c x)"

text \<open>\<^verbatim>\<open>Serial.println\<close> of a null \<^verbatim>\<open>const char *\<close> prints the line end only.\<close>

definition cstr_or_empty :: "string option \<Rightarrow> string" where
  "cstr_or_empty command = (case command of None \<Rightarrow> [] | Some c \<Rightarrow> c)"

text \<open>
  Lines 343 to 376 of \<^verbatim>\<open>processJsonMessage\<close>: what is done with a document whose code is
  positive, once the command information has been logged and published.
\<close>

definition processJsonMessage_dispatch ::
    "library \<Rightarrow> string option \<Rightarrow> int \<Rightarrow> string \<Rightarrow> state \<Rightarrow> state" where
  "processJsonMessage_dispatch L command code piCommand s =
     (if code = 101 then reply101 s
      else if code = 102 then
        (let s = turnonpi s
         in if power_on_guard (strcmp_command L command ''power_on'') code then
              (let s = s\<lparr>pendingCommand := piCommand\<rparr>;
                   s = s\<lparr>hasPendingCommand := True\<rparr>;
                   s = publishStatus (''Pi booting, command '' @ piCommand @ '' queued'') s
               in s)
            else s)
      else if piReady s then sendToPi piCommand s
      else
        (let s = s\<lparr>pendingCommand := piCommand\<rparr>;
             s = s\<lparr>hasPendingCommand := True\<rparr>
         in if \<not> piPowered s then
              (let s = turnonpi s;
                   s = publishStatus (''Pi booting, command '' @ piCommand @ '' queued'') s
               in s)
            else publishStatus (''Pi not ready, command '' @ piCommand @ '' queued'') s))"

definition processJsonMessage :: "library \<Rightarrow> string \<Rightarrow> state \<Rightarrow> state" where
  "processJsonMessage L jsonString s =
     (case deserializeJson L jsonString of
        Inl error \<Rightarrow>
          (let s = Serial_print ''JSON parsing failed: '' s;
               s = Serial_println error s;
               s = publishStatus ''Error: JSON parsing failed'' s
           in s)
      | Inr doc \<Rightarrow>
          (let command = doc_command doc;
               code = doc_code doc;
               duration = doc_duration_estimate doc
           in if code \<le> 0 then
                (let s = Serial_println ''Invalid code in JSON message'' s;
                     s = publishStatus ''Error: Invalid code in JSON message'' s
                 in s)
              else
                (let s = Serial_print ''JSON Command: '' s;
                     s = Serial_println (cstr_or_empty command) s;
                     s = Serial_print ''Code: '' s;
                     s = Serial_println (String_int code) s;
                     s = Serial_print ''Duration: '' s;
                     s = Serial_println (String_int duration) s;
                     piCommand = String_int code @ '':'' @ String_int duration;
                     s = Serial_print ''Command with duration: '' s;
                     s = Serial_println piCommand s;
                     s = publishStatus (''Command '' @ String_int code @ '' with duration: ''
                                        @ String_int duration @ '' seconds'') s
                 in processJsonMessage_dispatch L command code piCommand s)))"

text \<open>
  \<^verbatim>\<open>onMqttMessage\<close>: \<open>messageTopic\<close> is \<^verbatim>\<open>mqttClient.messageTopic()\<close> and \<open>incoming\<close> the
  payload read byte by byte. Lines 261 to 296, the legacy numeric codes, come first as a
  function of their own.
\<close>

definition onMqttMessage_legacy :: "string \<Rightarrow> state \<Rightarrow> state" where
  "onMqttMessage_legacy incoming s =
     (let code = toInt incoming;
          s = (if code = 101 then reply101 s else s);
          s = (if code = 102 then turnonpi s else s)
      in if piReady s then
           (if code = 103 then statuspi s
            else if code = 104 then shutdownpi s
            else if code > 0 then sendToPi incoming s
            else s)
         else if code > 0 \<and> code \<noteq> 101 \<and> code \<noteq> 102 then
           (let s = s\<lparr>pendingCommand := incoming\<rparr>;
                s = s\<lparr>hasPendingCommand := True\<rparr>
            in if \<not> piPowered s then
                 (let s = turnonpi s;
                      s = publishStatus (''Pi booting, command '' @ incoming @ '' queued'') s
                  in s)
               else publishStatus (''Pi not ready, command '' @ incoming @ '' queued'') s)
         else s)"

definition onMqttMessage :: "library \<Rightarrow> string \<Rightarrow> string \<Rightarrow> state \<Rightarrow> state" where
  "onMqttMessage L messageTopic incoming s =
     (let s = Serial_print ''MQTT received on topic '' s;
          s = Serial_print messageTopic s;
          s = Serial_print '': '' s;
          s = Serial_println incoming s
      in if indexOf incoming ''{'' \<ge> 0 \<and> indexOf incoming ''}'' \<ge> 0 then
           processJsonMessage L incoming s
         else onMqttMessage_legacy incoming s)"

subsection \<open>\<^verbatim>\<open>connectToBroker\<close>\<close>

text \<open>
  \<open>connected\<close> is what \<^verbatim>\<open>mqttClient.connect(broker, port)\<close> answers and \<open>err\<close> the text of
  \<^verbatim>\<open>mqttClient.connectError()\<close>. A successful connect is what makes
  \<^verbatim>\<open>mqttClient.connected()\<close> true. The function's own result is the first component.
\<close>

definition connectToBroker :: "bool \<Rightarrow> string \<Rightarrow> state \<Rightarrow> bool \<times> state" where
  "connectToBroker connected err s =
     (if \<not> connected then
        (let s = s\<lparr>mqttConnected := False\<rparr>;
             s = Serial_print ''MQTT connection failed. Error: '' s;
             s = Serial_println err s
         in (False, s))
      else
        (let s = s\<lparr>mqttConnected := True\<rparr>;
             jsonTopic = ''commands'';
             s = Serial_print ''Subscribing to topic: '' s;
             s = Serial_println jsonTopic s;
             s = emit (MqttSubscribe jsonTopic) s;
             s = Serial_print ''Subscribing to topic: '' s;
             s = Serial_println topic s;
             s = emit (MqttSubscribe topic) s;
             s = publishStatus ''Arduino connected to MQTT'' s
         in (True, s)))"

subsection \<open>\<^verbatim>\<open>connectToNetwork\<close>, \<^verbatim>\<open>setup\<close> and \<^verbatim>\<open>loop\<close>\<close>

text \<open>
  What the sketch takes from \<^verbatim>\<open>arduino_secrets.h\<close> and from the board: the network name,
  the number of the built-in LED pin, and the text of \<^verbatim>\<open>WiFi.localIP()\<close>.
\<close>

record platform =
  SECRET_SSID :: string
  LED_BUILTIN :: nat
  localIP :: string

text \<open>
  The \<^verbatim>\<open>while\<close> loop of \<^verbatim>\<open>connectToNetwork\<close> runs until \<^verbatim>\<open>WiFi.status()\<close> answers
  \<^verbatim>\<open>WL_CONNECTED\<close>, which may be never. The list holds the answers the network gives, one
  per test, \<open>True\<close> for connected; when the answers run out with the network still down
  the function has not returned, and the result is \<open>None\<close>.
\<close>

fun connectToNetwork_while :: "platform \<Rightarrow> bool list \<Rightarrow> state \<Rightarrow> state option" where
  "connectToNetwork_while P [] s = None"
| "connectToNetwork_while P (connected # answers) s =
     (if connected then Some s
      else
        (let s = Serial_println (''Attempting to connect to: '' @ SECRET_SSID P) s;
             s = emit (WiFiBegin (SECRET_SSID P)) s;
             s = delay 5000 s
         in connectToNetwork_while P answers s))"

definition connectToNetwork :: "platform \<Rightarrow> bool list \<Rightarrow> state \<Rightarrow> state option" where
  "connectToNetwork P answers s =
     (let s = Serial_println ''Connecting to WiFi...'' s
      in case connectToNetwork_while P answers s of
           None \<Rightarrow> None
         | Some s \<Rightarrow>
             (let s = Serial_print ''Connected. IP address: '' s;
                  s = Serial_println (localIP P) s;
                  s = digitalWrite (LED_BUILTIN P) HIGH s
              in Some s))"

text \<open>
  The globals as their initialisers leave them. The pin has no level the sketch knows of
  before \<^verbatim>\<open>setup\<close> drives it; \<open>pin0\<close> stands for it. The buffer is a zeroed global, and
  the MQTT client starts without a session.
\<close>

definition globals :: "level \<Rightarrow> state" where
  "globals pin0 =
     \<lparr> piPowered = False, piReady = False, pendingCommand = [], hasPendingCommand = False,
       textBuffer = replicate sizeof_textBuffer NUL, textBufferIndex = 0,
       pin12 = pin0, mqttConnected = False, trace = [] \<rparr>"

text \<open>
  \<^verbatim>\<open>setup\<close>, with \<open>serial_open\<close> for what \<^verbatim>\<open>Serial\<close> answers at line 36 and \<open>answers\<close> for
  the network. Lines 43 to 52 give the MQTT client its id and credentials, and lines 55 to
  57 throw away the bytes that are waiting on the device link; neither changes a global or
  acts on a port, and the bytes thrown away are none of those that \<^verbatim>\<open>loop\<close> is given later.
\<close>

definition setup_sketch :: "platform \<Rightarrow> bool \<Rightarrow> bool list \<Rightarrow> state \<Rightarrow> state option" where
  "setup_sketch P serial_open answers s =
     (let s = emit (PinModeOutput 12) s;
          s = digitalWrite 12 HIGH s;
          s = emit (SerialBegin 9600) s;
          s = emit (Serial1Begin 9600) s;
          s = (if \<not> serial_open then delay 3000 s else s);
          s = Serial_println ''Starting...'' s
      in case connectToNetwork P answers s of
           None \<Rightarrow> None
         | Some s \<Rightarrow>
             (let s = Serial_println ''Setup complete. Simple text protocol enabled.'' s;
                  s = publishStatus ''Arduino initialized with text protocol. Waiting for Pi...'' s;
                  s = memset_textBuffer s;
                  s = s\<lparr>textBufferIndex := 0\<rparr>
              in Some s))"

text \<open>
  What one pass of \<^verbatim>\<open>loop\<close> finds in the world: the answers of \<^verbatim>\<open>WiFi.status()\<close> (the
  first for line 69, the others for \<^verbatim>\<open>connectToNetwork\<close>), whether the MQTT session broke
  since the last pass, what \<^verbatim>\<open>mqttClient.connect\<close> would answer, the messages that
  \<^verbatim>\<open>mqttClient.poll()\<close> hands to the callback (topic and payload, in order), and the bytes
  waiting on the device link.
\<close>

record loop_env =
  wifi_status :: "bool list"
  session_lost :: bool
  connect_answer :: bool
  connect_error :: string
  polled :: "(string \<times> string) list"
  available :: "char list"

fun poll :: "library \<Rightarrow> (string \<times> string) list \<Rightarrow> state \<Rightarrow> state" where
  "poll L [] s = s"
| "poll L ((messageTopic, incoming) # rest) s = poll L rest (onMqttMessage L messageTopic incoming s)"

text \<open>
  \<^verbatim>\<open>loop\<close>. The callback is installed by a successful \<^verbatim>\<open>connectToBroker\<close>, so messages are
  delivered only with the session up.
\<close>

definition loop :: "library \<Rightarrow> platform \<Rightarrow> loop_env \<Rightarrow> state \<Rightarrow> state option" where
  "loop L P env s =
     (case wifi_status env of
        [] \<Rightarrow> None
      | connected # answers \<Rightarrow>
          if \<not> connected then connectToNetwork P answers s
          else
            (let s = (if session_lost env then s\<lparr>mqttConnected := False\<rparr> else s);
                 s = (if \<not> mqttConnected s then
                        (let s = Serial_println ''Attempting to connect to broker'' s
                         in snd (connectToBroker (connect_answer env) (connect_error env) s))
                      else s);
                 s = (if mqttConnected s then poll L (polled env) s else s);
                 s = checkPiMessages (available env) s;
                 s = delay 10 s
             in Some s))"

text \<open>The program: \<^verbatim>\<open>setup\<close> once, then \<^verbatim>\<open>loop\<close> again and again.\<close>

fun run :: "library \<Rightarrow> platform \<Rightarrow> loop_env list \<Rightarrow> state \<Rightarrow> state option" where
  "run L P [] s = Some s"
| "run L P (env # envs) s =
     (case loop L P env s of None \<Rightarrow> None | Some s \<Rightarrow> run L P envs s)"

definition sketch ::
    "library \<Rightarrow> platform \<Rightarrow> level \<Rightarrow> bool \<Rightarrow> bool list \<Rightarrow> loop_env list \<Rightarrow> state option" where
  "sketch L P pin0 serial_open answers envs =
     (case setup_sketch P serial_open answers (globals pin0) of
        None \<Rightarrow> None
      | Some s \<Rightarrow> run L P envs s)"

text \<open>Projections of the trace onto one port.\<close>

fun device_writes :: "effect list \<Rightarrow> string list" where
  "device_writes [] = []"
| "device_writes (Serial1Print x # es) = x # device_writes es"
| "device_writes (e # es) = device_writes es"

fun published :: "effect list \<Rightarrow> string list" where
  "published [] = []"
| "published (MqttPublish t x # es) = x # published es"
| "published (e # es) = published es"

fun pin_writes :: "effect list \<Rightarrow> (nat \<times> level) list" where
  "pin_writes [] = []"
| "pin_writes (DigitalWrite p v # es) = (p, v) # pin_writes es"
| "pin_writes (e # es) = pin_writes es"

fun delays :: "effect list \<Rightarrow> nat list" where
  "delays [] = []"
| "delays (Delay ms # es) = ms # delays es"
| "delays (e # es) = delays es"

fun physical :: "effect list \<Rightarrow> effect list" where
  "physical [] = []"
| "physical (Serial1Print x # es) = Serial1Print x # physical es"
| "physical (DigitalWrite p v # es) = DigitalWrite p v # physical es"
| "physical (Delay ms # es) = Delay ms # physical es"
| "physical (e # es) = physical es"

text \<open>Everything but the debug port: what the bus, the device and the pin can see.\<close>

fun beyond_debug :: "effect list \<Rightarrow> effect list" where
  "beyond_debug [] = []"
| "beyond_debug (SerialPrint x # es) = beyond_debug es"
| "beyond_debug (SerialPrintln x # es) = beyond_debug es"
| "beyond_debug (e # es) = e # beyond_debug es"

subsection \<open>Vocabulary of the properties\<close>

text \<open>The invariant on the two device flags.\<close>

definition ready_implies_powered :: "state \<Rightarrow> bool" where
  "ready_implies_powered s = (piReady s \<longrightarrow> piPowered s)"

text \<open>
  Two states agree beyond the debug port when they have the same globals, pin level and
  session, and their traces differ at most in what was printed on \<^verbatim>\<open>Serial\<close>.
\<close>

definition agree_beyond_debug :: "state \<Rightarrow> state \<Rightarrow> bool" where
  "agree_beyond_debug s1 s2 =
     (piPowered s1 = piPowered s2 \<and> piReady s1 = piReady s2
      \<and> pendingCommand s1 = pendingCommand s2
      \<and> hasPendingCommand s1 = hasPendingCommand s2
      \<and> textBuffer s1 = textBuffer s2 \<and> textBufferIndex s1 = textBufferIndex s2
      \<and> pin12 s1 = pin12 s2 \<and> mqttConnected s1 = mqttConnected s2
      \<and> beyond_debug (trace s1) = beyond_debug (trace s2))"

text \<open>
  The test of line 255 that sends a bus message to the structured handler, and the test of
  lines 127 and 128 that makes a device line a Ready event.
\<close>

definition is_json :: "string \<Rightarrow> bool" where
  "is_json incoming = (indexOf incoming ''{'' \<ge> 0 \<and> indexOf incoming ''}'' \<ge> 0)"

definition is_ready_line :: "string \<Rightarrow> bool" where
  "is_ready_line message =
     (indexOf (trim message) ''Pi ready'' \<ge> 0 \<or> indexOf (trim message) ''READY'' \<ge> 0)"

text \<open>
  The bytes that line 96 accepts and that are not line terminators: printable ASCII.
\<close>

definition printable :: "char \<Rightarrow> bool" where
  "printable c = ((of_char c :: nat) \<ge> 32 \<and> (of_char c :: nat) \<le> 126)"

text \<open>
  Lines 435 to 444 of \<^verbatim>\<open>sendToPi\<close>: the write itself, which the function performs when
  the device is ready.
\<close>

definition sendToPi_write :: "string \<Rightarrow> state \<Rightarrow> state" where
  "sendToPi_write command s =
     (let command = command @ [LF];
          s = Serial_print ''Sending command to Pi: '' s;
          s = Serial_print command s;
          s = Serial1_print command s;
          s = Serial1_flush s;
          s = publishStatus (''Command sent to Pi: '' @ command) s
      in s)"

text \<open>
  A bus message is a queue request when, with the device not ready, the handlers reach the
  assignments to the pending slot (lines 286 and 366): a positive code other than 101 and
  102. \<open>queue_text\<close> gives the text those lines store.
\<close>

definition queue_text :: "library \<Rightarrow> string \<Rightarrow> string option" where
  "queue_text L incoming =
     (if is_json incoming then
        (case deserializeJson L incoming of
           Inl error \<Rightarrow> None
         | Inr doc \<Rightarrow>
             if doc_code doc > 0 \<and> doc_code doc \<noteq> 101 \<and> doc_code doc \<noteq> 102
             then Some (String_int (doc_code doc) @ '':'' @ String_int (doc_duration_estimate doc))
             else None)
      else if toInt incoming > 0 \<and> toInt incoming \<noteq> 101 \<and> toInt incoming \<noteq> 102
           then Some incoming else None)"

text \<open>
  Concrete inputs for the examples: a board, a pass of \<^verbatim>\<open>loop\<close> in which nothing arrives,
  the three states of the machine with the session up and an empty trace (OFF as \<^verbatim>\<open>setup\<close>
  and a first pass that joins the broker leave it, BOOTING after a power-on, READY after
  the device then reported ready), and a stand-in for ArduinoJson that knows three
  documents.
\<close>

definition board :: platform where
  "board = \<lparr> SECRET_SSID = ''field'', LED_BUILTIN = 6, localIP = ''192.168.0.20'' \<rparr>"

definition quiet :: loop_env where
  "quiet = \<lparr> wifi_status = [True], session_lost = False, connect_answer = True,
             connect_error = [], polled = [], available = [] \<rparr>"

definition started :: state where
  "started =
     \<lparr> piPowered = False, piReady = False, pendingCommand = [], hasPendingCommand = False,
       textBuffer = replicate sizeof_textBuffer NUL, textBufferIndex = 0,
       pin12 = HIGH, mqttConnected = True, trace = [] \<rparr>"

definition booting :: state where
  "booting = started\<lparr>piPowered := True, pin12 := LOW\<rparr>"

definition ready :: state where
  "ready = booting\<lparr>piReady := True\<rparr>"

definition dq :: string where
  "dq = [CHR 0x22]"

definition shutdown_json :: string where
  "shutdown_json = ''{'' @ dq @ ''command'' @ dq @ '':'' @ dq @ ''shutdown'' @ dq @ '',''
                   @ dq @ ''code'' @ dq @ '':104,'' @ dq @ ''duration_estimate'' @ dq @ '':0}''"

definition power_on_json :: string where
  "power_on_json = ''{'' @ dq @ ''command'' @ dq @ '':'' @ dq @ ''power_on'' @ dq @ '',''
                   @ dq @ ''code'' @ dq @ '':102,'' @ dq @ ''duration_estimate'' @ dq @ '':0}''"

definition record_json :: string where
  "record_json = ''{'' @ dq @ ''command'' @ dq @ '':'' @ dq @ ''record'' @ dq @ '',''
                   @ dq @ ''code'' @ dq @ '':105,'' @ dq @ ''duration_estimate'' @ dq @ '':600}''"

definition fixture :: library where
  "fixture =
     \<lparr> deserializeJson = (\<lambda>x.
         if x = shutdown_json then
           Inr \<lparr> doc_command = Some ''shutdown'', doc_code = 104, doc_duration_estimate = 0 \<rparr>
         else if x = power_on_json then
           Inr \<lparr> doc_command = Some ''power_on'', doc_code = 102, doc_duration_estimate = 0 \<rparr>
         else if x = record_json then
           Inr \<lparr> doc_command = Some ''record'', doc_code = 105, doc_duration_estimate = 600 \<rparr>
         else Inl ''InvalidInput''),
       strcmp_null = 1 \<rparr>"


section \<open>The example states are states of the program\<close>

lemma started_reached:
  "map_option (\<lambda>s. s\<lparr>trace := []\<rparr>) (sketch fixture board LOW True [True] [quiet])
     = Some started"
  by (simp add: sketch_def setup_sketch_def connectToNetwork_def loop_def connectToBroker_def
      globals_def started_def quiet_def board_def Let_def publishStatus_def
      Serial_print_def Serial_println_def delay_def digitalWrite_def emit_def
      memset_textBuffer_def)

lemma booting_reached: "(turnonpi started)\<lparr>trace := []\<rparr> = booting"
  by code_simp

lemma ready_reached: "(processTextMessage ''Pi ready'' booting)\<lparr>trace := []\<rparr> = ready"
  by code_simp

section \<open>Effects of the core functions\<close>

lemma emit_fields [simp]:
  "piPowered (emit e s) = piPowered s"
  "piReady (emit e s) = piReady s"
  "pendingCommand (emit e s) = pendingCommand s"
  "hasPendingCommand (emit e s) = hasPendingCommand s"
  "textBuffer (emit e s) = textBuffer s"
  "textBufferIndex (emit e s) = textBufferIndex s"
  "pin12 (emit e s) = pin12 s"
  "mqttConnected (emit e s) = mqttConnected s"
  "trace (emit e s) = trace s @ [e]"
  by (simp_all add: emit_def)

lemmas port_defs = Serial_print_def Serial_println_def Serial1_print_def Serial1_flush_def
  delay_def

lemma digitalWrite_fields [simp]:
  "piPowered (digitalWrite p v s) = piPowered s"
  "piReady (digitalWrite p v s) = piReady s"
  "pendingCommand (digitalWrite p v s) = pendingCommand s"
  "hasPendingCommand (digitalWrite p v s) = hasPendingCommand s"
  "textBuffer (digitalWrite p v s) = textBuffer s"
  "textBufferIndex (digitalWrite p v s) = textBufferIndex s"
  "pin12 (digitalWrite p v s) = (if p = 12 then v else pin12 s)"
  "mqttConnected (digitalWrite p v s) = mqttConnected s"
  "trace (digitalWrite p v s) = trace s @ [DigitalWrite p v]"
  by (simp_all add: digitalWrite_def Let_def)

lemma memset_fields [simp]:
  "piPowered (memset_textBuffer s) = piPowered s"
  "piReady (memset_textBuffer s) = piReady s"
  "pendingCommand (memset_textBuffer s) = pendingCommand s"
  "hasPendingCommand (memset_textBuffer s) = hasPendingCommand s"
  "textBuffer (memset_textBuffer s) = replicate sizeof_textBuffer NUL"
  "textBufferIndex (memset_textBuffer s) = textBufferIndex s"
  "pin12 (memset_textBuffer s) = pin12 s"
  "mqttConnected (memset_textBuffer s) = mqttConnected s"
  "trace (memset_textBuffer s) = trace s"
  by (simp_all add: memset_textBuffer_def)

lemma publishStatus_fields [simp]:
  "piPowered (publishStatus m s) = piPowered s"
  "piReady (publishStatus m s) = piReady s"
  "pendingCommand (publishStatus m s) = pendingCommand s"
  "hasPendingCommand (publishStatus m s) = hasPendingCommand s"
  "textBuffer (publishStatus m s) = textBuffer s"
  "textBufferIndex (publishStatus m s) = textBufferIndex s"
  "pin12 (publishStatus m s) = pin12 s"
  "mqttConnected (publishStatus m s) = mqttConnected s"
  by (simp_all add: publishStatus_def Let_def port_defs)

lemma device_writes_append [simp]:
  "device_writes (xs @ ys) = device_writes xs @ device_writes ys"
  by (induction xs rule: device_writes.induct) simp_all

lemma published_append [simp]: "published (xs @ ys) = published xs @ published ys"
  by (induction xs rule: published.induct) simp_all

lemma pin_writes_append [simp]: "pin_writes (xs @ ys) = pin_writes xs @ pin_writes ys"
  by (induction xs rule: pin_writes.induct) simp_all

lemma delays_append [simp]: "delays (xs @ ys) = delays xs @ delays ys"
  by (induction xs rule: delays.induct) simp_all

lemma physical_append [simp]: "physical (xs @ ys) = physical xs @ physical ys"
  by (induction xs rule: physical.induct) simp_all

lemma beyond_debug_append [simp]: "beyond_debug (xs @ ys) = beyond_debug xs @ beyond_debug ys"
  by (induction xs rule: beyond_debug.induct) simp_all

lemma publishStatus_trace:
  "trace (publishStatus m s) =
     trace s @ (if mqttConnected s
                then [MqttPublish topic m, SerialPrintln (''Published: '' @ m)] else [])"
  by (simp add: publishStatus_def Let_def port_defs)

lemma publishStatus_ports [simp]:
  "device_writes (trace (publishStatus m s)) = device_writes (trace s)"
  "pin_writes (trace (publishStatus m s)) = pin_writes (trace s)"
  "delays (trace (publishStatus m s)) = delays (trace s)"
  "physical (trace (publishStatus m s)) = physical (trace s)"
  "published (trace (publishStatus m s)) =
     published (trace s) @ (if mqttConnected s then [m] else [])"
  by (simp_all add: publishStatus_trace)

section \<open>Effects of \<^verbatim>\<open>sendToPi\<close> and the power functions\<close>

lemma sendToPi_fields [simp]:
  "piPowered (sendToPi c s) = piPowered s"
  "piReady (sendToPi c s) = piReady s"
  "textBuffer (sendToPi c s) = textBuffer s"
  "textBufferIndex (sendToPi c s) = textBufferIndex s"
  "pin12 (sendToPi c s) = pin12 s"
  "mqttConnected (sendToPi c s) = mqttConnected s"
  "pin_writes (trace (sendToPi c s)) = pin_writes (trace s)"
  "delays (trace (sendToPi c s)) = delays (trace s)"
  by (simp_all add: sendToPi_def Let_def port_defs)

lemma sendToPi_ready:
  assumes "piReady s"
  shows "pendingCommand (sendToPi c s) = pendingCommand s"
    and "hasPendingCommand (sendToPi c s) = hasPendingCommand s"
    and "device_writes (trace (sendToPi c s)) = device_writes (trace s) @ [c @ [LF]]"
    and "physical (trace (sendToPi c s)) = physical (trace s) @ [Serial1Print (c @ [LF])]"
    and "published (trace (sendToPi c s)) =
           published (trace s) @ (if mqttConnected s then [''Command sent to Pi: '' @ c @ [LF]] else [])"
  using assms by (simp_all add: sendToPi_def Let_def port_defs)

text \<open>
  What \<^verbatim>\<open>sendToPi\<close> would do if it were called with the device not ready. No call in the
  sketch is such a call; see \<open>legacy_sends_when_ready\<close>, \<open>dispatch_sends_when_ready\<close> and
  \<open>ready_line_sends_when_ready\<close> below.
\<close>

lemma sendToPi_not_ready:
  assumes "\<not> piReady s"
  shows "pendingCommand (sendToPi c s) = (if piPowered s then c else pendingCommand s)"
    and "hasPendingCommand (sendToPi c s) = (piPowered s \<or> hasPendingCommand s)"
    and "device_writes (trace (sendToPi c s)) = device_writes (trace s)"
    and "physical (trace (sendToPi c s)) = physical (trace s)"
    and "published (trace (sendToPi c s)) =
           published (trace s) @
             (if mqttConnected s
              then ''Command failed, Pi not ready'' #
                   (if piPowered s then [''Command queued: '' @ c] else [])
              else [])"
  using assms by (simp_all add: sendToPi_def Let_def port_defs)

lemma reply101_fields [simp]:
  "piPowered (reply101 s) = piPowered s"
  "piReady (reply101 s) = piReady s"
  "pendingCommand (reply101 s) = pendingCommand s"
  "hasPendingCommand (reply101 s) = hasPendingCommand s"
  "textBuffer (reply101 s) = textBuffer s"
  "textBufferIndex (reply101 s) = textBufferIndex s"
  "pin12 (reply101 s) = pin12 s"
  "mqttConnected (reply101 s) = mqttConnected s"
  "device_writes (trace (reply101 s)) = device_writes (trace s)"
  "pin_writes (trace (reply101 s)) = pin_writes (trace s)"
  "delays (trace (reply101 s)) = delays (trace s)"
  "physical (trace (reply101 s)) = physical (trace s)"
  by (simp_all add: reply101_def Let_def port_defs)

lemma turnonpi_fields [simp]:
  "piPowered (turnonpi s)"
  "piReady (turnonpi s) = (piPowered s \<and> piReady s)"
  "pendingCommand (turnonpi s) = pendingCommand s"
  "hasPendingCommand (turnonpi s) = hasPendingCommand s"
  "textBuffer (turnonpi s) = textBuffer s"
  "textBufferIndex (turnonpi s) = textBufferIndex s"
  "pin12 (turnonpi s) = (if piPowered s then pin12 s else LOW)"
  "mqttConnected (turnonpi s) = mqttConnected s"
  "device_writes (trace (turnonpi s)) = device_writes (trace s)"
  "delays (trace (turnonpi s)) = delays (trace s)"
  "pin_writes (trace (turnonpi s)) =
     pin_writes (trace s) @ (if piPowered s then [] else [(12, LOW)])"
  "published (trace (turnonpi s)) =
     published (trace s) @
       (if mqttConnected s
        then [if piPowered s then ''Pi is already powered on'' else ''Pi Booting''] else [])"
  by (simp_all add: turnonpi_def Let_def port_defs)

lemma turnonpi_powered:
  "piPowered s \<Longrightarrow>
   turnonpi s = publishStatus ''Pi is already powered on''
                  (Serial_println ''Pi is already powered on'' s)"
  by (simp add: turnonpi_def Let_def)

lemma statuspi_fields [simp]:
  "piPowered (statuspi s) = piPowered s"
  "piReady (statuspi s) = piReady s"
  by (simp_all add: statuspi_def Let_def port_defs)

lemma shutdownpi_fields [simp]:
  "\<not> piPowered (shutdownpi s)"
  "\<not> piReady (shutdownpi s)"
  "pin12 (shutdownpi s) = HIGH"
  "mqttConnected (shutdownpi s) = mqttConnected s"
  by (simp_all add: shutdownpi_def Let_def port_defs)

lemma shutdownpi_ready:
  assumes "piReady s"
  shows "physical (trace (shutdownpi s)) =
           physical (trace s) @ [Serial1Print ''104\<newline>'', Delay 25000, DigitalWrite 12 HIGH]"
    and "device_writes (trace (shutdownpi s)) = device_writes (trace s) @ [''104\<newline>'']"
    and "delays (trace (shutdownpi s)) = delays (trace s) @ [25000]"
    and "pin_writes (trace (shutdownpi s)) = pin_writes (trace s) @ [(12, HIGH)]"
    and "pendingCommand (shutdownpi s) = pendingCommand s"
    and "hasPendingCommand (shutdownpi s) = hasPendingCommand s"
  using assms by (simp_all add: shutdownpi_def Let_def port_defs sendToPi_ready LF_def)

section \<open>The invariant\<close>

lemma inv_frame [simp]:
  "ready_implies_powered (s\<lparr>trace := tr\<rparr>) = ready_implies_powered s"
  "ready_implies_powered (s\<lparr>textBuffer := b\<rparr>) = ready_implies_powered s"
  "ready_implies_powered (s\<lparr>textBufferIndex := i\<rparr>) = ready_implies_powered s"
  "ready_implies_powered (s\<lparr>pendingCommand := c\<rparr>) = ready_implies_powered s"
  "ready_implies_powered (s\<lparr>hasPendingCommand := h\<rparr>) = ready_implies_powered s"
  "ready_implies_powered (s\<lparr>mqttConnected := k\<rparr>) = ready_implies_powered s"
  "ready_implies_powered (emit e s) = ready_implies_powered s"
  "ready_implies_powered (publishStatus m s) = ready_implies_powered s"
  "ready_implies_powered (memset_textBuffer s) = ready_implies_powered s"
  by (simp_all add: ready_implies_powered_def)

lemma inv_processTextMessage:
  "ready_implies_powered s \<Longrightarrow> ready_implies_powered (processTextMessage m s)"
  by (simp add: ready_implies_powered_def processTextMessage_def Let_def port_defs)

lemma inv_dispatch:
  "ready_implies_powered s \<Longrightarrow>
   ready_implies_powered (processJsonMessage_dispatch L command code piCommand s)"
  by (simp add: ready_implies_powered_def processJsonMessage_dispatch_def Let_def)

lemma inv_processJsonMessage:
  "ready_implies_powered s \<Longrightarrow> ready_implies_powered (processJsonMessage L m s)"
  by (simp add: processJsonMessage_def Let_def port_defs inv_dispatch split: sum.splits)

lemma inv_legacy:
  "ready_implies_powered s \<Longrightarrow> ready_implies_powered (onMqttMessage_legacy m s)"
  by (auto simp add: ready_implies_powered_def onMqttMessage_legacy_def Let_def)

lemma inv_onMqttMessage:
  "ready_implies_powered s \<Longrightarrow> ready_implies_powered (onMqttMessage L t m s)"
  by (simp add: onMqttMessage_def Let_def port_defs inv_processJsonMessage inv_legacy)

lemma inv_body:
  "ready_implies_powered s \<Longrightarrow> ready_implies_powered (checkPiMessages_body c s)"
  by (simp add: checkPiMessages_body_def Let_def port_defs inv_processTextMessage)

lemma inv_checkPiMessages:
  "ready_implies_powered s \<Longrightarrow> ready_implies_powered (checkPiMessages bs s)"
  by (induction bs arbitrary: s) (simp_all add: inv_body)

lemma inv_connectToBroker:
  "ready_implies_powered s \<Longrightarrow> ready_implies_powered (snd (connectToBroker ok err s))"
  by (simp add: connectToBroker_def Let_def port_defs)

lemma inv_connectToNetwork_while:
  "connectToNetwork_while P answers s = Some s' \<Longrightarrow> ready_implies_powered s \<Longrightarrow>
   ready_implies_powered s'"
proof (induction answers arbitrary: s)
  case Nil
  then show ?case by simp
next
  case (Cons connected answers)
  show ?case
  proof (cases connected)
    case True
    with Cons.prems show ?thesis by simp
  next
    case False
    with Cons.prems show ?thesis
      by (auto simp add: Let_def port_defs intro: Cons.IH)
  qed
qed

lemma inv_digitalWrite:
  "ready_implies_powered (digitalWrite p v s) = ready_implies_powered s"
  by (simp add: ready_implies_powered_def)

lemma inv_connectToNetwork:
  "connectToNetwork P answers s = Some s' \<Longrightarrow> ready_implies_powered s \<Longrightarrow>
   ready_implies_powered s'"
  by (auto simp add: connectToNetwork_def Let_def port_defs inv_digitalWrite
      split: option.splits dest: inv_connectToNetwork_while)

lemma inv_setup:
  "setup_sketch P serial_open answers (globals pin0) = Some s \<Longrightarrow> ready_implies_powered s"
proof -
  assume a: "setup_sketch P serial_open answers (globals pin0) = Some s"
  have g: "ready_implies_powered (globals pin0)"
    by (simp add: ready_implies_powered_def globals_def)
  from a show ?thesis
    by (auto simp add: setup_sketch_def Let_def port_defs inv_digitalWrite g
        split: option.splits if_splits dest!: inv_connectToNetwork)
qed

lemma inv_poll:
  "ready_implies_powered s \<Longrightarrow> ready_implies_powered (poll L ms s)"
  by (induction ms arbitrary: s) (auto simp add: inv_onMqttMessage)

lemma inv_loop:
  "loop L P env s = Some s' \<Longrightarrow> ready_implies_powered s \<Longrightarrow> ready_implies_powered s'"
  by (auto simp add: loop_def Let_def port_defs inv_poll inv_checkPiMessages
      inv_connectToBroker
      split: list.splits if_splits dest: inv_connectToNetwork)

lemma inv_run:
  "run L P envs s = Some s' \<Longrightarrow> ready_implies_powered s \<Longrightarrow> ready_implies_powered s'"
  by (induction envs arbitrary: s) (auto split: option.splits dest: inv_loop)

text \<open>
  Claim C1. Wherever the program stands after \<^verbatim>\<open>setup\<close> and any number of passes of
  \<^verbatim>\<open>loop\<close>, whatever bus messages and device-link bytes those passes were given and
  however the network and the session behaved, a device that is marked ready is marked
  powered: \<open>piReady\<close> implies \<open>piPowered\<close>.
\<close>

theorem C1_ready_implies_powered:
  "sketch L P pin0 serial_open answers envs = Some s \<Longrightarrow> ready_implies_powered s"
  by (auto simp add: sketch_def split: option.splits dest: inv_setup inv_run)

section \<open>Queueing and dispatch at the Ready event\<close>

lemma onMqttMessage_json:
  "is_json m \<Longrightarrow>
   onMqttMessage L t m s =
     processJsonMessage L m
       (Serial_println m (Serial_print '': '' (Serial_print t
          (Serial_print ''MQTT received on topic '' s))))"
  by (simp add: onMqttMessage_def is_json_def Let_def)

lemma onMqttMessage_not_json:
  "\<not> is_json m \<Longrightarrow>
   onMqttMessage L t m s =
     onMqttMessage_legacy m
       (Serial_println m (Serial_print '': '' (Serial_print t
          (Serial_print ''MQTT received on topic '' s))))"
  by (auto simp add: onMqttMessage_def is_json_def Let_def)

lemma processJsonMessage_doc:
  "deserializeJson L m = Inr doc \<Longrightarrow> doc_code doc > 0 \<Longrightarrow>
   processJsonMessage L m s =
     processJsonMessage_dispatch L (doc_command doc) (doc_code doc)
       (String_int (doc_code doc) @ '':'' @ String_int (doc_duration_estimate doc))
       (publishStatus (''Command '' @ String_int (doc_code doc) @ '' with duration: ''
                       @ String_int (doc_duration_estimate doc) @ '' seconds'')
         (Serial_println (String_int (doc_code doc) @ '':'' @ String_int (doc_duration_estimate doc))
           (Serial_print ''Command with duration: ''
             (Serial_println (String_int (doc_duration_estimate doc))
               (Serial_print ''Duration: ''
                 (Serial_println (String_int (doc_code doc))
                   (Serial_print ''Code: ''
                     (Serial_println (cstr_or_empty (doc_command doc))
                       (Serial_print ''JSON Command: '' s)))))))))"
  by (simp add: processJsonMessage_def Let_def)

lemma legacy_queue:
  assumes "\<not> piReady s" and "toInt m > 0" and "toInt m \<noteq> 101" and "toInt m \<noteq> 102"
  shows "pendingCommand (onMqttMessage_legacy m s) = m"
    and "hasPendingCommand (onMqttMessage_legacy m s)"
    and "\<not> piReady (onMqttMessage_legacy m s)"
    and "device_writes (trace (onMqttMessage_legacy m s)) = device_writes (trace s)"
  using assms by (simp_all add: onMqttMessage_legacy_def Let_def)

lemma dispatch_queue:
  assumes "\<not> piReady s" and "code \<noteq> 101" and "code \<noteq> 102"
  shows "pendingCommand (processJsonMessage_dispatch L command code piCommand s) = piCommand"
    and "hasPendingCommand (processJsonMessage_dispatch L command code piCommand s)"
    and "\<not> piReady (processJsonMessage_dispatch L command code piCommand s)"
    and "device_writes (trace (processJsonMessage_dispatch L command code piCommand s))
           = device_writes (trace s)"
  using assms by (simp_all add: processJsonMessage_dispatch_def Let_def)

lemma queue_when_not_ready:
  assumes "\<not> piReady s" and "queue_text L m = Some tx"
  shows "pendingCommand (onMqttMessage L t m s) = tx"
    and "hasPendingCommand (onMqttMessage L t m s)"
    and "\<not> piReady (onMqttMessage L t m s)"
    and "device_writes (trace (onMqttMessage L t m s)) = device_writes (trace s)"
proof -
  have "pendingCommand (onMqttMessage L t m s) = tx
      \<and> hasPendingCommand (onMqttMessage L t m s)
      \<and> \<not> piReady (onMqttMessage L t m s)
      \<and> device_writes (trace (onMqttMessage L t m s)) = device_writes (trace s)"
  proof (cases "is_json m")
    case True
    with assms(2) obtain doc where d: "deserializeJson L m = Inr doc"
      and c: "doc_code doc > 0" "doc_code doc \<noteq> 101" "doc_code doc \<noteq> 102"
      and tx: "tx = String_int (doc_code doc) @ '':'' @ String_int (doc_duration_estimate doc)"
      by (auto simp: queue_text_def split: sum.splits if_splits)
    show ?thesis
      using assms(1) c(2,3)
      by (simp add: onMqttMessage_json [OF True] processJsonMessage_doc [OF d c(1)] tx
          dispatch_queue port_defs)
  next
    case False
    with assms(2) have c: "toInt m > 0" "toInt m \<noteq> 101" "toInt m \<noteq> 102" and tx: "tx = m"
      by (auto simp: queue_text_def split: if_splits)
    show ?thesis
      using assms(1) c
      by (simp add: onMqttMessage_not_json [OF False] tx legacy_queue port_defs)
  qed
  then show "pendingCommand (onMqttMessage L t m s) = tx"
    and "hasPendingCommand (onMqttMessage L t m s)"
    and "\<not> piReady (onMqttMessage L t m s)"
    and "device_writes (trace (onMqttMessage L t m s)) = device_writes (trace s)"
    by simp_all
qed

lemma ready_line_flags:
  assumes "is_ready_line m"
  shows "piReady (processTextMessage m s)"
    and "piPowered (processTextMessage m s)"
    and "pin12 (processTextMessage m s) = pin12 s"
    and "pin_writes (trace (processTextMessage m s)) = pin_writes (trace s)"
    and "delays (trace (processTextMessage m s)) = delays (trace s)"
    and "\<not> hasPendingCommand (processTextMessage m s)"
  using assms
  by (simp_all add: is_ready_line_def processTextMessage_def Let_def port_defs)

lemma ready_line_dispatch:
  assumes "is_ready_line m" and "hasPendingCommand s"
  shows "device_writes (trace (processTextMessage m s))
           = device_writes (trace s) @ [pendingCommand s @ [LF]]"
    and "pendingCommand (processTextMessage m s) = []"
  using assms
  by (simp_all add: is_ready_line_def processTextMessage_def Let_def port_defs sendToPi_ready)

lemma ready_line_idle:
  assumes "is_ready_line m" and "\<not> hasPendingCommand s"
  shows "device_writes (trace (processTextMessage m s)) = device_writes (trace s)"
    and "pendingCommand (processTextMessage m s) = pendingCommand s"
  using assms
  by (simp_all add: is_ready_line_def processTextMessage_def Let_def port_defs)

text \<open>
  Claim C3. The pending slot holds one command and the last request wins: when two queue
  requests \<open>a\<close> then \<open>b\<close> arrive while the device is not ready, nothing is written to the
  device meanwhile, the slot holds the text of \<open>b\<close>, and the next Ready line writes exactly
  that text (with its line end) to the device and empties the slot.
\<close>

theorem C3_last_queued_command_wins:
  assumes "\<not> piReady s" and "queue_text L a = Some ta" and "queue_text L b = Some tb"
    and "is_ready_line m"
  shows "hasPendingCommand (onMqttMessage L t2 b (onMqttMessage L t1 a s))
       \<and> pendingCommand (onMqttMessage L t2 b (onMqttMessage L t1 a s)) = tb
       \<and> device_writes (trace (onMqttMessage L t2 b (onMqttMessage L t1 a s)))
           = device_writes (trace s)
       \<and> device_writes (trace (processTextMessage m
             (onMqttMessage L t2 b (onMqttMessage L t1 a s))))
           = device_writes (trace s) @ [tb @ [LF]]
       \<and> \<not> hasPendingCommand (processTextMessage m
             (onMqttMessage L t2 b (onMqttMessage L t1 a s)))
       \<and> pendingCommand (processTextMessage m
             (onMqttMessage L t2 b (onMqttMessage L t1 a s))) = []"
proof -
  let ?s1 = "onMqttMessage L t1 a s"
  let ?s2 = "onMqttMessage L t2 b ?s1"
  have 1: "\<not> piReady ?s1" "device_writes (trace ?s1) = device_writes (trace s)"
    using queue_when_not_ready [OF assms(1) assms(2)] by simp_all
  have 2: "pendingCommand ?s2 = tb" "hasPendingCommand ?s2"
    "device_writes (trace ?s2) = device_writes (trace ?s1)"
    using queue_when_not_ready [OF 1(1) assms(3)] by simp_all
  show ?thesis
    using 1 2 ready_line_dispatch [OF assms(4) 2(2)] ready_line_flags(6) [OF assms(4)]
    by simp
qed

theorem C3_last_queued_command_wins_witness:
  "\<not> piReady started \<and> queue_text fixture ''106'' = Some ''106''
   \<and> queue_text fixture record_json = Some ''105:600'' \<and> is_ready_line ''Pi ready''
   \<and> device_writes (trace (processTextMessage ''Pi ready''
        (onMqttMessage fixture ''commands'' record_json
          (onMqttMessage fixture ''commands'' ''106'' started)))) = [''105:600\<newline>'']"
proof -
  have h: "\<not> piReady started" "queue_text fixture ''106'' = Some ''106''"
    "queue_text fixture record_json = Some ''105:600''" "is_ready_line ''Pi ready''"
    by code_simp+
  have t: "device_writes (trace started) = []" by code_simp
  show ?thesis
    using h t C3_last_queued_command_wins [OF h, of "''commands''" "''commands''"]
    by (simp add: LF_def)
qed

text \<open>
  Claim C10. A Ready line received while the machine is OFF sets both flags, and does so
  without writing the power-control pin: its level stays what it was, so after \<^verbatim>\<open>setup\<close>
  has driven it high the device is marked powered with the relay still off.
\<close>

theorem C10_ready_line_when_off:
  assumes "is_ready_line m" and "\<not> piPowered s" and "\<not> piReady s"
  shows "piPowered (processTextMessage m s) \<and> piReady (processTextMessage m s)
       \<and> pin_writes (trace (processTextMessage m s)) = pin_writes (trace s)
       \<and> pin12 (processTextMessage m s) = pin12 s"
  using ready_line_flags [OF assms(1)] by simp

theorem C10_ready_line_when_off_witness:
  "is_ready_line ''READY'' \<and> \<not> piPowered started \<and> \<not> piReady started
   \<and> pin12 started = HIGH
   \<and> piPowered (processTextMessage ''READY'' started)
   \<and> pin12 (processTextMessage ''READY'' started) = HIGH"
proof -
  have h: "is_ready_line ''READY''" "\<not> piPowered started" "\<not> piReady started"
    by code_simp+
  have p: "pin12 started = HIGH" by code_simp
  show ?thesis
    using h p C10_ready_line_when_off [OF h] by simp
qed


section \<open>No write to the device unless it is ready\<close>

lemma sendToPi_when_ready: "piReady s \<Longrightarrow> sendToPi c s = sendToPi_write c s"
  by (simp add: sendToPi_def sendToPi_write_def)



lemma ready_line_sends_when_ready:
  assumes "is_ready_line m"
  shows "processTextMessage m s =
     (let s = Serial_print ''Text message from Pi: '' s;
          s = Serial_println (trim m) s;
          s = s\<lparr>piReady := True\<rparr>;
          s = s\<lparr>piPowered := True\<rparr>;
          s = Serial_println ''Pi is now ready for communication!'' s;
          s = publishStatus ''Pi is ready for communication'' s
      in if hasPendingCommand s then
           (let s = Serial_println ''Sending pending command to Pi'' s;
                s = sendToPi_write (pendingCommand s) s;
                s = s\<lparr>hasPendingCommand := False\<rparr>;
                s = s\<lparr>pendingCommand := []\<rparr>
            in s)
         else s)"
  using assms
  by (simp add: is_ready_line_def processTextMessage_def Let_def sendToPi_when_ready port_defs)










section \<open>The power-on request on a powered device\<close>

lemma dispatch_102:
  "processJsonMessage_dispatch L command 102 piCommand s = turnonpi s"
  by (simp add: processJsonMessage_dispatch_def power_on_guard_def Let_def)

lemma power_on_legacy_while_booting:
  assumes "piPowered s" and "\<not> piReady s" and "\<not> is_json m" and "toInt m = 102"
  shows "onMqttMessage L t m s =
           publishStatus ''Pi is already powered on''
             (Serial_println ''Pi is already powered on''
               (Serial_println m (Serial_print '': '' (Serial_print t
                 (Serial_print ''MQTT received on topic '' s)))))"
  using assms
  by (simp add: onMqttMessage_not_json onMqttMessage_legacy_def Let_def turnonpi_powered port_defs)

lemma power_on_structured_while_powered:
  assumes "piPowered s" and "is_json m" and "deserializeJson L m = Inr doc"
    and "doc_code doc = 102"
  shows "device_writes (trace (onMqttMessage L t m s)) = device_writes (trace s)"
    and "pin_writes (trace (onMqttMessage L t m s)) = pin_writes (trace s)"
    and "pin12 (onMqttMessage L t m s) = pin12 s"
    and "piPowered (onMqttMessage L t m s)"
    and "piReady (onMqttMessage L t m s) = piReady s"
    and "pendingCommand (onMqttMessage L t m s) = pendingCommand s"
    and "hasPendingCommand (onMqttMessage L t m s) = hasPendingCommand s"
  using assms
  by (simp_all add: onMqttMessage_json processJsonMessage_doc dispatch_102 port_defs)

text \<open>
  Claim C5 at the input where the code departs from it. A legacy message with code 102
  that arrives in the READY state is answered with the status, and then line 281 forwards
  the message text to the device: the device link receives it.
\<close>

theorem C5_legacy_102_forwarded_when_ready:
  assumes "piPowered s" and "piReady s" and "\<not> is_json m" and "toInt m = 102"
  shows "device_writes (trace (onMqttMessage L t m s)) = device_writes (trace s) @ [m @ [LF]]
       \<and> published (trace (onMqttMessage L t m s)) =
           published (trace s) @
             (if mqttConnected s
              then [''Pi is already powered on'', ''Command sent to Pi: '' @ m @ [LF]]
              else [])"
  using assms
  by (simp add: onMqttMessage_not_json onMqttMessage_legacy_def Let_def sendToPi_ready port_defs)

theorem C5_legacy_102_forwarded_when_ready_witness:
  "piPowered ready \<and> piReady ready \<and> \<not> is_json ''102'' \<and> toInt ''102'' = 102
   \<and> device_writes (trace (onMqttMessage fixture ''commands'' ''102'' ready)) = [''102\<newline>'']"
proof -
  have h: "piPowered ready" "piReady ready" "\<not> is_json ''102''" "toInt ''102'' = 102"
    by code_simp+
  have t: "trace ready = []" by code_simp
  show ?thesis
    using h t C5_legacy_102_forwarded_when_ready [OF h, of fixture "''commands''"]
    by (simp add: LF_def)
qed

section \<open>The shutdown request\<close>

lemma String_int_104: "String_int 104 = ''104''"
  by code_simp

lemma shutdown_legacy_while_ready:
  assumes "piReady s" and "\<not> is_json m" and "toInt m = 104"
  shows "\<not> piReady (onMqttMessage L t m s)"
    and "\<not> piPowered (onMqttMessage L t m s)"
    and "pin12 (onMqttMessage L t m s) = HIGH"
    and "physical (trace (onMqttMessage L t m s)) =
           physical (trace s) @ [Serial1Print ''104\<newline>'', Delay 25000, DigitalWrite 12 HIGH]"
  using assms
  by (simp_all add: onMqttMessage_not_json onMqttMessage_legacy_def Let_def shutdownpi_ready
      port_defs)

text \<open>
  Claim C2 at the input where the code departs from it. A structured message with code
  104 that arrives in the READY state is not given to \<^verbatim>\<open>shutdownpi\<close>: it is forwarded to
  the device as \<open>104:<duration>\<close> like any other command. The device stays marked ready and
  powered, there is no wait, and the power pin is not written.
\<close>

theorem C2_structured_104_only_forwarded:
  assumes "piReady s" and "is_json m" and "deserializeJson L m = Inr doc"
    and "doc_code doc = 104"
  shows "piReady (onMqttMessage L t m s)
       \<and> piPowered (onMqttMessage L t m s) = piPowered s
       \<and> pin12 (onMqttMessage L t m s) = pin12 s
       \<and> delays (trace (onMqttMessage L t m s)) = delays (trace s)
       \<and> pin_writes (trace (onMqttMessage L t m s)) = pin_writes (trace s)
       \<and> device_writes (trace (onMqttMessage L t m s)) =
           device_writes (trace s) @ [''104:'' @ String_int (doc_duration_estimate doc) @ [LF]]"
  using assms
  by (simp add: onMqttMessage_json processJsonMessage_doc processJsonMessage_dispatch_def
      sendToPi_ready String_int_104 port_defs)

theorem C2_structured_104_only_forwarded_witness:
  "piReady ready \<and> is_json shutdown_json
   \<and> piReady (onMqttMessage fixture ''commands'' shutdown_json ready)
   \<and> piPowered (onMqttMessage fixture ''commands'' shutdown_json ready)
   \<and> pin12 (onMqttMessage fixture ''commands'' shutdown_json ready) = LOW
   \<and> delays (trace (onMqttMessage fixture ''commands'' shutdown_json ready)) = []
   \<and> device_writes (trace (onMqttMessage fixture ''commands'' shutdown_json ready))
        = [''104:0\<newline>'']"
proof -
  have h: "piReady ready" "is_json shutdown_json"
    "deserializeJson fixture shutdown_json
       = Inr \<lparr> doc_command = Some ''shutdown'', doc_code = 104, doc_duration_estimate = 0 \<rparr>"
    "doc_code \<lparr> doc_command = Some ''shutdown'', doc_code = 104, doc_duration_estimate = 0 \<rparr> = 104"
    by code_simp+
  have t: "trace ready = []" "piPowered ready" "pin12 ready = LOW" "String_int 0 = ''0''"
    by code_simp+
  show ?thesis
    using h(1,2) t C2_structured_104_only_forwarded [OF h, of "''commands''"]
    by (simp add: LF_def)
qed

section \<open>The queuing branch of the structured power-on\<close>

lemma power_on_structured:
  assumes "deserializeJson L m = Inr doc" and "doc_code doc = 102"
  shows "processJsonMessage L m s =
           turnonpi
             (publishStatus (''Command 102 with duration: ''
                             @ String_int (doc_duration_estimate doc) @ '' seconds'')
               (Serial_println (''102:'' @ String_int (doc_duration_estimate doc))
                 (Serial_print ''Command with duration: ''
                   (Serial_println (String_int (doc_duration_estimate doc))
                     (Serial_print ''Duration: ''
                       (Serial_println ''102''
                         (Serial_print ''Code: ''
                           (Serial_println (cstr_or_empty (doc_command doc))
                             (Serial_print ''JSON Command: '' s)))))))))"
    and "pendingCommand (processJsonMessage L m s) = pendingCommand s"
    and "hasPendingCommand (processJsonMessage L m s) = hasPendingCommand s"
proof -
  have c: "String_int 102 = ''102''" by code_simp
  show "processJsonMessage L m s =
           turnonpi
             (publishStatus (''Command 102 with duration: ''
                             @ String_int (doc_duration_estimate doc) @ '' seconds'')
               (Serial_println (''102:'' @ String_int (doc_duration_estimate doc))
                 (Serial_print ''Command with duration: ''
                   (Serial_println (String_int (doc_duration_estimate doc))
                     (Serial_print ''Duration: ''
                       (Serial_println ''102''
                         (Serial_print ''Code: ''
                           (Serial_println (cstr_or_empty (doc_command doc))
                             (Serial_print ''JSON Command: '' s)))))))))"
    and "pendingCommand (processJsonMessage L m s) = pendingCommand s"
    and "hasPendingCommand (processJsonMessage L m s) = hasPendingCommand s"
    using assms by (simp_all add: processJsonMessage_doc dispatch_102 c port_defs)
qed

text \<open>
  Claim C8. The branch at line 353 of \<^verbatim>\<open>processJsonMessage\<close> is dead. Its condition sits
  inside the test \<open>code == 102\<close> of line 349 and asks for a code other than 102, so it is
  false at the one code that reaches it, whatever \<^verbatim>\<open>strcmp\<close> answers. For every command,
  code, command text and state, the dispatch is the dispatch with the branch struck out:
  code 102 calls \<^verbatim>\<open>turnonpi\<close> and nothing more, and no other code comes near the branch.
\<close>

theorem C8_power_on_queue_branch_dead:
  "processJsonMessage_dispatch L command code piCommand s =
     (if code = 101 then reply101 s
      else if code = 102 then turnonpi s
      else if piReady s then sendToPi piCommand s
      else
        (let s = s\<lparr>pendingCommand := piCommand\<rparr>;
             s = s\<lparr>hasPendingCommand := True\<rparr>
         in if \<not> piPowered s then
              (let s = turnonpi s;
                   s = publishStatus (''Pi booting, command '' @ piCommand @ '' queued'') s
               in s)
            else publishStatus (''Pi not ready, command '' @ piCommand @ '' queued'') s))
   \<and> \<not> power_on_guard (strcmp_command L command ''power_on'') 102"
  by (simp add: processJsonMessage_dispatch_def power_on_guard_def Let_def)

section \<open>The topic of a bus message\<close>

lemma agree_refl: "agree_beyond_debug s s"
  by (simp add: agree_beyond_debug_def)

lemma agree_debug:
  "agree_beyond_debug s1 s2 \<Longrightarrow>
   agree_beyond_debug (Serial_print x s1) (Serial_print y s2)"
  "agree_beyond_debug s1 s2 \<Longrightarrow>
   agree_beyond_debug (Serial_println x s1) (Serial_println y s2)"
  by (simp_all add: agree_beyond_debug_def port_defs)

lemma agree_publishStatus:
  "agree_beyond_debug s1 s2 \<Longrightarrow>
   agree_beyond_debug (publishStatus m s1) (publishStatus m s2)"
  by (simp add: agree_beyond_debug_def publishStatus_trace)

lemma agree_sendToPi:
  "agree_beyond_debug s1 s2 \<Longrightarrow> agree_beyond_debug (sendToPi c s1) (sendToPi c s2)"
  by (simp add: agree_beyond_debug_def sendToPi_def Let_def port_defs publishStatus_trace)

lemma agree_reply101:
  "agree_beyond_debug s1 s2 \<Longrightarrow> agree_beyond_debug (reply101 s1) (reply101 s2)"
  by (simp add: agree_beyond_debug_def reply101_def Let_def port_defs publishStatus_trace)

lemma agree_turnonpi:
  "agree_beyond_debug s1 s2 \<Longrightarrow> agree_beyond_debug (turnonpi s1) (turnonpi s2)"
  by (simp add: agree_beyond_debug_def turnonpi_def Let_def port_defs publishStatus_trace)

lemma agree_statuspi:
  "agree_beyond_debug s1 s2 \<Longrightarrow> agree_beyond_debug (statuspi s1) (statuspi s2)"
  by (simp add: statuspi_def Let_def agree_sendToPi agree_debug)

lemma agree_shutdownpi:
  "agree_beyond_debug s1 s2 \<Longrightarrow> agree_beyond_debug (shutdownpi s1) (shutdownpi s2)"
proof -
  assume a: "agree_beyond_debug s1 s2"
  have "agree_beyond_debug (sendToPi ''104'' (Serial_println ''Sending shutdown command to Pi'' s1))
          (sendToPi ''104'' (Serial_println ''Sending shutdown command to Pi'' s2))"
    by (intro agree_sendToPi agree_debug a)
  then show ?thesis
    by (simp add: agree_beyond_debug_def shutdownpi_def Let_def port_defs publishStatus_trace)
qed

lemma agree_queue:
  "agree_beyond_debug s1 s2 \<Longrightarrow>
   agree_beyond_debug (s1\<lparr>pendingCommand := c, hasPendingCommand := True\<rparr>)
     (s2\<lparr>pendingCommand := c, hasPendingCommand := True\<rparr>)"
  by (simp add: agree_beyond_debug_def)

lemma agree_flags:
  "agree_beyond_debug s1 s2 \<Longrightarrow> piReady s1 = piReady s2"
  "agree_beyond_debug s1 s2 \<Longrightarrow> piPowered s1 = piPowered s2"
  by (simp_all add: agree_beyond_debug_def)

lemma agree_dispatch:
  assumes "agree_beyond_debug s1 s2"
  shows "agree_beyond_debug (processJsonMessage_dispatch L command code piCommand s1)
           (processJsonMessage_dispatch L command code piCommand s2)"
  using assms agree_flags [OF assms]
  by (simp add: processJsonMessage_dispatch_def Let_def power_on_guard_def
      agree_reply101 agree_turnonpi agree_sendToPi agree_queue agree_publishStatus)

lemma agree_processJsonMessage:
  assumes "agree_beyond_debug s1 s2"
  shows "agree_beyond_debug (processJsonMessage L m s1) (processJsonMessage L m s2)"
  using assms
  by (simp add: processJsonMessage_def Let_def agree_dispatch agree_debug agree_publishStatus
      split: sum.splits)

lemma agree_legacy:
  assumes "agree_beyond_debug s1 s2"
  shows "agree_beyond_debug (onMqttMessage_legacy m s1) (onMqttMessage_legacy m s2)"
  using assms agree_flags [OF assms]
  by (simp add: onMqttMessage_legacy_def Let_def
      agree_reply101 agree_turnonpi agree_sendToPi agree_queue agree_publishStatus
      agree_statuspi agree_shutdownpi)

lemma agree_onMqttMessage:
  assumes "agree_beyond_debug s1 s2"
  shows "agree_beyond_debug (onMqttMessage L t1 m s1) (onMqttMessage L t2 m s2)"
  using assms
  by (simp add: onMqttMessage_def Let_def agree_legacy agree_processJsonMessage agree_debug)

lemma device_writes_beyond_debug: "device_writes (beyond_debug es) = device_writes es"
  by (induction es rule: beyond_debug.induct) simp_all

lemma published_beyond_debug: "published (beyond_debug es) = published es"
  by (induction es rule: beyond_debug.induct) simp_all

lemma physical_beyond_debug: "physical (beyond_debug es) = physical es"
  by (induction es rule: beyond_debug.induct) simp_all

lemma agree_ports:
  assumes "agree_beyond_debug s1 s2"
  shows "device_writes (trace s1) = device_writes (trace s2)"
    and "published (trace s1) = published (trace s2)"
    and "physical (trace s1) = physical (trace s2)"
proof -
  have e: "beyond_debug (trace s1) = beyond_debug (trace s2)"
    using assms by (simp add: agree_beyond_debug_def)
  show "device_writes (trace s1) = device_writes (trace s2)"
    using arg_cong [OF e, of device_writes] by (simp add: device_writes_beyond_debug)
  show "published (trace s1) = published (trace s2)"
    using arg_cong [OF e, of published] by (simp add: published_beyond_debug)
  show "physical (trace s1) = physical (trace s2)"
    using arg_cong [OF e, of physical] by (simp add: physical_beyond_debug)
qed


text \<open>
  Claim C9. The handler prints the topic of a bus message on the debug port and does
  nothing else with it: the same payload on any two topics leaves the same globals, pin
  level and session, and the same effects beyond the debug port, in particular the same
  device-link writes and the same published statuses. The gateway subscribes to the very
  topic it publishes on (\<open>status\<close>), so its own outputs come back as commands: the reply
  \<open>301\<close> to a status probe, delivered on that topic to a gateway whose device is off,
  switches the device on and queues \<open>301\<close> for it.
\<close>

theorem C9_topic_is_not_branched_on:
  "agree_beyond_debug (onMqttMessage L t1 m s) (onMqttMessage L t2 m s)
   \<and> device_writes (trace (onMqttMessage L t1 m s))
       = device_writes (trace (onMqttMessage L t2 m s))
   \<and> published (trace (onMqttMessage L t1 m s))
       = published (trace (onMqttMessage L t2 m s))
   \<and> topic = ''status''
   \<and> MqttSubscribe ''commands'' \<in> set (trace (snd (connectToBroker True err s)))
   \<and> MqttSubscribe topic \<in> set (trace (snd (connectToBroker True err s)))
   \<and> published (trace (reply101 started)) = [''301'']
   \<and> piPowered (onMqttMessage fixture topic ''301'' started)
   \<and> pin12 (onMqttMessage fixture topic ''301'' started) = LOW
   \<and> pendingCommand (onMqttMessage fixture topic ''301'' started) = ''301''"
proof -
  have a: "agree_beyond_debug (onMqttMessage L t1 m s) (onMqttMessage L t2 m s)"
    by (rule agree_onMqttMessage [OF agree_refl])
  have b: "MqttSubscribe ''commands'' \<in> set (trace (snd (connectToBroker True err s)))"
    "MqttSubscribe topic \<in> set (trace (snd (connectToBroker True err s)))"
    by (simp_all add: connectToBroker_def Let_def port_defs publishStatus_trace)
  have c: "published (trace (reply101 started)) = [''301'']"
    "piPowered (onMqttMessage fixture topic ''301'' started)"
    "pin12 (onMqttMessage fixture topic ''301'' started) = LOW"
    "pendingCommand (onMqttMessage fixture topic ''301'' started) = ''301''"
    by code_simp+
  show ?thesis
    using a agree_ports(1,2) [OF a] b c by (simp add: topic_def)
qed


section \<open>The line framer\<close>

lemma checkPiMessages_snoc:
  "checkPiMessages (bs @ [c]) s = checkPiMessages_body c (checkPiMessages bs s)"
  by (induction bs arbitrary: s) simp_all

lemma cstring_one:
  assumes "2 \<le> length buf" and "c \<noteq> NUL"
  shows "cstring (buf[0 := c, Suc 0 := NUL]) = [c]"
proof -
  from assms(1) obtain x y rest where "buf = x # y # rest"
    by (cases buf; cases "tl buf") auto
  then show ?thesis using assms(2) by (simp add: cstring_def)
qed

lemma trim_terminator: "trim [LF] = []" "trim [CR] = []"
  by (simp_all add: trim_def isspace_def LF_def CR_def)

lemma processTextMessage_empty_line:
  assumes "trim m = []"
  shows "processTextMessage m s =
           publishStatus ''Pi message: ''
             (Serial_println ''Unrecognized message from Pi: ''
               (Serial_println []
                 (Serial_print ''Text message from Pi: '' s)))"
  by (simp add: processTextMessage_def assms Let_def indexOf_def cstring_def startsWith_def)

text \<open>
  Claim C7, as the code has it. The framer stores a terminator like any accepted byte
  before it looks at it, so a newline or carriage return on an empty buffer is framed as
  a line, and the line is empty once trimmed. \<^verbatim>\<open>processTextMessage\<close> runs on it, matches
  nothing, and reports it as an unrecognised message: the status \<open>Pi message: \<close> is
  published when the session is up. The device flags, the pending slot, the pin and the
  device link are left alone, and the buffer is empty again afterwards.
\<close>

theorem C7_terminator_on_empty_buffer:
  assumes "c = LF \<or> c = CR"
    and "textBufferIndex s = 0" and "textBuffer s = replicate sizeof_textBuffer NUL"
  shows "checkPiMessages [c] s =
           publishStatus ''Pi message: ''
             (Serial_println ''Unrecognized message from Pi: ''
               (Serial_println []
                 (Serial_print ''Text message from Pi: '' s)))
       \<and> published (trace (checkPiMessages [c] s)) =
           published (trace s) @ (if mqttConnected s then [''Pi message: ''] else [])
       \<and> device_writes (trace (checkPiMessages [c] s)) = device_writes (trace s)
       \<and> piPowered (checkPiMessages [c] s) = piPowered s
       \<and> piReady (checkPiMessages [c] s) = piReady s
       \<and> hasPendingCommand (checkPiMessages [c] s) = hasPendingCommand s
       \<and> pendingCommand (checkPiMessages [c] s) = pendingCommand s
       \<and> pin12 (checkPiMessages [c] s) = pin12 s
       \<and> textBufferIndex (checkPiMessages [c] s) = 0"
proof -
  have t: "(of_char c :: nat) = 10 \<or> (of_char c :: nat) = 13" "c \<noteq> NUL" "trim [c] = []"
    using assms(1) trim_terminator by (auto simp: LF_def CR_def NUL_def)
  have l: "2 \<le> length (textBuffer s)"
    by (simp add: assms(3) sizeof_textBuffer_def)
  have m: "cstring ((textBuffer s)[0 := c, Suc 0 := NUL]) = [c]"
    by (rule cstring_one [OF l t(2)])
  have "checkPiMessages [c] s =
          publishStatus ''Pi message: ''
            (Serial_println ''Unrecognized message from Pi: ''
              (Serial_println []
                (Serial_print ''Text message from Pi: '' s)))"
    using t(1) assms(2,3) m
    by (cases s)
       (auto simp add: checkPiMessages_body_def Let_def sizeof_textBuffer_def
          processTextMessage_empty_line [OF t(3)] publishStatus_def port_defs emit_def
          memset_textBuffer_def)
  then show ?thesis using assms(2) by (simp add: port_defs)
qed

theorem C7_terminator_on_empty_buffer_witness:
  "(CR = LF \<or> CR = CR) \<and> textBufferIndex booting = 0
   \<and> textBuffer booting = replicate sizeof_textBuffer NUL
   \<and> published (trace (checkPiMessages [CR] booting)) = [''Pi message: '']
   \<and> piPowered (checkPiMessages [CR] booting)"
proof -
  have h: "CR = LF \<or> CR = CR" "textBufferIndex booting = 0"
    "textBuffer booting = replicate sizeof_textBuffer NUL"
    by code_simp+
  have t: "trace booting = []" "mqttConnected booting" "piPowered booting" by code_simp+
  show ?thesis
    using h t C7_terminator_on_empty_buffer [OF h] by (simp add: port_defs)
qed

text \<open>
  The claim as stated fails in the OFF state with the session up: one newline on the empty
  buffer makes the gateway publish a status.
\<close>

theorem C7_counterexample:
  "textBufferIndex started = 0 \<and> published (trace started) = []
   \<and> published (trace (checkPiMessages [LF] started)) = [''Pi message: '']"
  by code_simp


lemma body_store:
  assumes "printable c" and "textBufferIndex s < 127"
  shows "checkPiMessages_body c s =
           s\<lparr>textBuffer := (textBuffer s)[textBufferIndex s := c],
             textBufferIndex := Suc (textBufferIndex s)\<rparr>"
  using assms
  by (cases s) (auto simp add: checkPiMessages_body_def printable_def Let_def sizeof_textBuffer_def)

lemma body_overflow:
  assumes "printable c" and "textBufferIndex s = 127"
  shows "checkPiMessages_body c s =
           s\<lparr>textBuffer := replicate 128 NUL, textBufferIndex := 0,
             trace := trace s @ [SerialPrintln ''Text buffer overflow, resetting'']\<rparr>"
  using assms
  by (cases s)
     (auto simp add: checkPiMessages_body_def printable_def Let_def sizeof_textBuffer_def
        port_defs emit_def memset_textBuffer_def)

lemma store_in_padding:
  assumes "length d = r" and "r < 128"
  shows "(d @ replicate (128 - r) NUL)[r := c] = (d @ [c]) @ replicate (128 - Suc r) NUL"
proof -
  from assms(2) have k: "128 - r = Suc (127 - r)" by simp
  show ?thesis using assms(1) by (simp add: k list_update_append)
qed

lemma printable_run:
  assumes "list_all printable bs"
    and "textBufferIndex s = 0" and "textBuffer s = replicate sizeof_textBuffer NUL"
  shows "checkPiMessages bs s =
           s\<lparr>textBuffer := drop (length bs - length bs mod 128) bs
                            @ replicate (128 - length bs mod 128) NUL,
             textBufferIndex := length bs mod 128,
             trace := trace s @ replicate (length bs div 128)
                                  (SerialPrintln ''Text buffer overflow, resetting'')\<rparr>"
  using assms(1)
proof (induction bs rule: rev_induct)
  case Nil
  show ?case using assms(2,3) by (cases s) (simp add: sizeof_textBuffer_def)
next
  case (snoc c bs)
  let ?k = "length bs"
  let ?r = "?k mod 128"
  let ?s = "s\<lparr>textBuffer := drop (?k - ?r) bs @ replicate (128 - ?r) NUL,
               textBufferIndex := ?r,
               trace := trace s @ replicate (?k div 128)
                                    (SerialPrintln ''Text buffer overflow, resetting'')\<rparr>"
  from snoc.prems have p: "list_all printable bs" "printable c" by simp_all
  have ih: "checkPiMessages bs s = ?s" by (rule snoc.IH [OF p(1)])
  have r: "?r < 128" by simp
  have d: "length (drop (?k - ?r) bs) = ?r" by simp
  show ?case
  proof (cases "?r < 127")
    case True
    have a: "Suc ?k mod 128 = Suc ?r" "Suc ?k div 128 = ?k div 128"
      using True by (simp_all add: mod_Suc div_Suc)
    have e: "Suc ?k - Suc ?r = ?k - ?r" by simp
    have "checkPiMessages (bs @ [c]) s = checkPiMessages_body c ?s"
      by (simp add: checkPiMessages_snoc ih)
    also have "\<dots> = ?s\<lparr>textBuffer := (textBuffer ?s)[textBufferIndex ?s := c],
                       textBufferIndex := Suc (textBufferIndex ?s)\<rparr>"
      by (rule body_store [OF p(2)]) (simp add: True)
    finally show ?thesis
      using store_in_padding [OF d r, of c]
      by (simp add: a e)
  next
    case False
    then have f: "?r = 127" using r by linarith
    have a: "Suc ?k mod 128 = 0" "Suc ?k div 128 = Suc (?k div 128)"
      using f by (simp_all add: mod_Suc div_Suc)
    have "checkPiMessages (bs @ [c]) s = checkPiMessages_body c ?s"
      by (simp add: checkPiMessages_snoc ih)
    also have "\<dots> = ?s\<lparr>textBuffer := replicate 128 NUL, textBufferIndex := 0,
                       trace := trace ?s @ [SerialPrintln ''Text buffer overflow, resetting'']\<rparr>"
      by (rule body_overflow [OF p(2)]) (simp add: f)
    finally show ?thesis
      by (simp add: a replicate_append_same)
  qed
qed

lemma ports_of_debug_lines:
  "published (replicate n (SerialPrintln x)) = []"
  "device_writes (replicate n (SerialPrintln x)) = []"
  by (induction n) simp_all

text \<open>
  Claim C6, as the code has it. Fed from an empty buffer, a run of printable bytes fills
  the buffer up to 127 bytes; the 128th byte of each block of 128 finds it full, and the
  framer then zeroes the buffer, drops that byte and prints
  \<open>Text buffer overflow, resetting\<close> on the debug serial port. That line is the only
  effect of the whole run: no line is handed to \<^verbatim>\<open>processTextMessage\<close>, nothing is
  published on the bus and nothing is written to the device. After \<open>n\<close> bytes the buffer
  holds the last \<open>n mod 128\<close> of them.
\<close>

theorem C6_overflow_of_a_printable_run:
  assumes "list_all printable bs"
    and "textBufferIndex s = 0" and "textBuffer s = replicate sizeof_textBuffer NUL"
  shows "checkPiMessages bs s =
           s\<lparr>textBuffer := drop (length bs - length bs mod 128) bs
                            @ replicate (128 - length bs mod 128) NUL,
             textBufferIndex := length bs mod 128,
             trace := trace s @ replicate (length bs div 128)
                                  (SerialPrintln ''Text buffer overflow, resetting'')\<rparr>
       \<and> published (trace (checkPiMessages bs s)) = published (trace s)
       \<and> device_writes (trace (checkPiMessages bs s)) = device_writes (trace s)"
  by (simp add: printable_run [OF assms] ports_of_debug_lines)

theorem C6_overflow_of_a_printable_run_witness:
  "list_all printable (replicate 130 (CHR ''z'')) \<and> textBufferIndex booting = 0
   \<and> textBuffer booting = replicate sizeof_textBuffer NUL
   \<and> textBufferIndex (checkPiMessages (replicate 130 (CHR ''z'')) booting) = 2
   \<and> trace (checkPiMessages (replicate 130 (CHR ''z'')) booting)
        = [SerialPrintln ''Text buffer overflow, resetting'']
   \<and> published (trace (checkPiMessages (replicate 130 (CHR ''z'')) booting)) = []"
proof -
  have h: "list_all printable (replicate 130 (CHR ''z''))" "textBufferIndex booting = 0"
    "textBuffer booting = replicate sizeof_textBuffer NUL"
    by code_simp+
  have t: "trace booting = []" by code_simp
  show ?thesis
    using h t C6_overflow_of_a_printable_run [OF h] by simp
qed

text \<open>
  The claim as stated fails in the OFF state with the session up: the 200 bytes of its
  example overflow the buffer, and the status reporter publishes nothing.
\<close>

theorem C6_counterexample:
  "mqttConnected started \<and> textBufferIndex started = 0
   \<and> trace (checkPiMessages (replicate 200 (CHR ''A'')) started)
        = [SerialPrintln ''Text buffer overflow, resetting'']
   \<and> published (trace (checkPiMessages (replicate 200 (CHR ''A'')) started)) = []"
  by code_simp

section \<open>Whole lines, and a run of the whole program\<close>

lemma cstring_line:
  assumes "list_all printable bs" and "c \<noteq> NUL"
  shows "cstring (bs @ c # NUL # rest) = bs @ [c]"
  using assms
  by (induction bs) (auto simp add: cstring_def printable_def NUL_def)

lemma framed_line:
  assumes "list_all printable bs" and "length bs < 127" and "c = LF \<or> c = CR"
    and "textBufferIndex s = 0" and "textBuffer s = replicate sizeof_textBuffer NUL"
  shows "\<exists>b. checkPiMessages (bs @ [c]) s =
           (processTextMessage (bs @ [c])
              (s\<lparr>textBufferIndex := Suc (length bs), textBuffer := b\<rparr>))
           \<lparr>textBuffer := replicate sizeof_textBuffer NUL, textBufferIndex := 0\<rparr>"
proof -
  let ?n = "length bs"
  let ?s = "s\<lparr>textBuffer := bs @ replicate (128 - ?n) NUL, textBufferIndex := ?n\<rparr>"
  have t: "(of_char c :: nat) = 10 \<or> (of_char c :: nat) = 13" "c \<noteq> NUL"
    using assms(3) by (auto simp: LF_def CR_def NUL_def)
  have run: "checkPiMessages bs s = ?s"
    using printable_run [OF assms(1,4,5)] assms(2) by (cases s) simp
  have pad: "128 - ?n = Suc (Suc (126 - ?n))" using assms(2) by simp
  have upd: "(bs @ replicate (128 - ?n) NUL)[?n := c, Suc ?n := NUL]
               = bs @ c # NUL # replicate (126 - ?n) NUL"
    by (simp add: pad list_update_append)
  have cs: "cstring ((bs @ replicate (128 - ?n) NUL)[?n := c, Suc ?n := NUL]) = bs @ [c]"
    by (simp only: upd cstring_line [OF assms(1) t(2)])
  have "checkPiMessages (bs @ [c]) s = checkPiMessages_body c ?s"
    by (simp add: checkPiMessages_snoc run)
  also have "\<dots> =
      (processTextMessage (bs @ [c])
         (s\<lparr>textBufferIndex := Suc ?n,
            textBuffer := (bs @ replicate (128 - ?n) NUL)[?n := c, Suc ?n := NUL]\<rparr>))
      \<lparr>textBuffer := replicate sizeof_textBuffer NUL, textBufferIndex := 0\<rparr>"
    using t(1) assms(2) cs
    by (auto simp add: checkPiMessages_body_def Let_def sizeof_textBuffer_def
        memset_textBuffer_def)
  finally show ?thesis by blast
qed

lemma framed_ready_line:
  assumes "list_all printable bs" and "length bs < 127" and "c = LF \<or> c = CR"
    and "textBufferIndex s = 0" and "textBuffer s = replicate sizeof_textBuffer NUL"
    and "is_ready_line (bs @ [c])"
  shows "piReady (checkPiMessages (bs @ [c]) s)" and "piPowered (checkPiMessages (bs @ [c]) s)"
proof -
  from framed_line [OF assms(1-5)] obtain b where
    "checkPiMessages (bs @ [c]) s =
       (processTextMessage (bs @ [c])
          (s\<lparr>textBufferIndex := Suc (length bs), textBuffer := b\<rparr>))
       \<lparr>textBuffer := replicate sizeof_textBuffer NUL, textBufferIndex := 0\<rparr>" ..
  then show "piReady (checkPiMessages (bs @ [c]) s)"
    and "piPowered (checkPiMessages (bs @ [c]) s)"
    by (simp_all add: ready_line_flags [OF assms(6)])
qed


lemma connectToNetwork_while_fields:
  "connectToNetwork_while P answers s = Some s' \<Longrightarrow>
   piPowered s' = piPowered s \<and> piReady s' = piReady s
   \<and> pendingCommand s' = pendingCommand s \<and> hasPendingCommand s' = hasPendingCommand s
   \<and> textBuffer s' = textBuffer s \<and> textBufferIndex s' = textBufferIndex s
   \<and> pin12 s' = pin12 s \<and> mqttConnected s' = mqttConnected s"
proof (induction answers arbitrary: s)
  case Nil
  then show ?case by simp
next
  case (Cons connected answers)
  show ?case
  proof (cases connected)
    case True
    with Cons.prems show ?thesis by simp
  next
    case False
    with Cons.prems have
      "connectToNetwork_while P answers
         (delay 5000 (emit (WiFiBegin (SECRET_SSID P))
            (Serial_println (''Attempting to connect to: '' @ SECRET_SSID P) s))) = Some s'"
      by (simp add: Let_def)
    from Cons.IH [OF this] show ?thesis by (simp add: port_defs)
  qed
qed

lemma connectToNetwork_fields:
  assumes "connectToNetwork P answers s = Some s'"
  shows "piPowered s' = piPowered s" and "piReady s' = piReady s"
    and "pendingCommand s' = pendingCommand s" and "hasPendingCommand s' = hasPendingCommand s"
    and "textBuffer s' = textBuffer s" and "textBufferIndex s' = textBufferIndex s"
    and "pin12 s' = (if LED_BUILTIN P = 12 then HIGH else pin12 s)"
    and "mqttConnected s' = mqttConnected s"
proof -
  from assms obtain s1 where
    w: "connectToNetwork_while P answers (Serial_println ''Connecting to WiFi...'' s) = Some s1"
    and e: "s' = digitalWrite (LED_BUILTIN P) HIGH
                  (Serial_println (localIP P) (Serial_print ''Connected. IP address: '' s1))"
    by (auto simp add: connectToNetwork_def Let_def split: option.splits)
  from connectToNetwork_while_fields [OF w]
  show "piPowered s' = piPowered s" and "piReady s' = piReady s"
    and "pendingCommand s' = pendingCommand s" and "hasPendingCommand s' = hasPendingCommand s"
    and "textBuffer s' = textBuffer s" and "textBufferIndex s' = textBufferIndex s"
    and "pin12 s' = (if LED_BUILTIN P = 12 then HIGH else pin12 s)"
    and "mqttConnected s' = mqttConnected s"
    by (simp_all add: e port_defs)
qed

lemma setup_returns:
  "setup_sketch P serial_open (True # answers) (globals pin0) \<noteq> None"
  by (simp add: setup_sketch_def connectToNetwork_def Let_def)

lemma setup_state:
  assumes "setup_sketch P serial_open answers (globals pin0) = Some s"
  shows "\<not> piPowered s" and "\<not> piReady s" and "\<not> hasPendingCommand s"
    and "pin12 s = HIGH" and "\<not> mqttConnected s"
    and "textBufferIndex s = 0" and "textBuffer s = replicate sizeof_textBuffer NUL"
proof -
  let ?s0 = "Serial_println ''Starting...''
               (if \<not> serial_open
                then delay 3000 (emit (Serial1Begin 9600) (emit (SerialBegin 9600)
                       (digitalWrite 12 HIGH (emit (PinModeOutput 12) (globals pin0)))))
                else emit (Serial1Begin 9600) (emit (SerialBegin 9600)
                       (digitalWrite 12 HIGH (emit (PinModeOutput 12) (globals pin0)))))"
  from assms obtain s1 where n: "connectToNetwork P answers ?s0 = Some s1"
    and e: "s = (memset_textBuffer
                  (publishStatus ''Arduino initialized with text protocol. Waiting for Pi...''
                    (Serial_println ''Setup complete. Simple text protocol enabled.'' s1)))
                \<lparr>textBufferIndex := 0\<rparr>"
    by (auto simp add: setup_sketch_def Let_def split: option.splits if_splits)
  from connectToNetwork_fields [OF n]
  show "\<not> piPowered s" and "\<not> piReady s" and "\<not> hasPendingCommand s"
    and "pin12 s = HIGH" and "\<not> mqttConnected s"
    and "textBufferIndex s = 0" and "textBuffer s = replicate sizeof_textBuffer NUL"
    by (simp_all add: e port_defs globals_def)
qed

lemma connectToBroker_fields:
  "piPowered (snd (connectToBroker ok err s)) = piPowered s"
  "piReady (snd (connectToBroker ok err s)) = piReady s"
  "textBuffer (snd (connectToBroker ok err s)) = textBuffer s"
  "textBufferIndex (snd (connectToBroker ok err s)) = textBufferIndex s"
  "pin12 (snd (connectToBroker ok err s)) = pin12 s"
  "mqttConnected (snd (connectToBroker ok err s)) = ok"
  by (simp_all add: connectToBroker_def Let_def port_defs)

lemma loop_ready_line:
  assumes "wifi_status env = True # answers" and "polled env = []"
    and "available env = bs @ [c]"
    and "list_all printable bs" and "length bs < 127" and "c = LF \<or> c = CR"
    and "is_ready_line (bs @ [c])"
    and "textBufferIndex s = 0" and "textBuffer s = replicate sizeof_textBuffer NUL"
  shows "loop L P env s \<noteq> None" and "piReady (the (loop L P env s))"
    and "piPowered (the (loop L P env s))" and "pin12 (the (loop L P env s)) = pin12 s"
proof -
  let ?s1 = "if session_lost env then s\<lparr>mqttConnected := False\<rparr> else s"
  let ?s2 = "if \<not> mqttConnected ?s1
             then snd (connectToBroker (connect_answer env) (connect_error env)
                         (Serial_println ''Attempting to connect to broker'' ?s1))
             else ?s1"
  have b: "textBufferIndex ?s2 = 0" "textBuffer ?s2 = replicate sizeof_textBuffer NUL"
    "pin12 ?s2 = pin12 s"
    using assms(8,9) by (simp_all add: connectToBroker_fields port_defs)
  have l: "loop L P env s = Some (delay 10 (checkPiMessages (bs @ [c]) ?s2))"
    using assms(1,2,3) by (simp add: loop_def Let_def)
  obtain b' where f: "checkPiMessages (bs @ [c]) ?s2 =
       (processTextMessage (bs @ [c])
          (?s2\<lparr>textBufferIndex := Suc (length bs), textBuffer := b'\<rparr>))
       \<lparr>textBuffer := replicate sizeof_textBuffer NUL, textBufferIndex := 0\<rparr>"
    using framed_line [OF assms(4,5,6) b(1,2)] by blast
  show "loop L P env s \<noteq> None" by (simp add: l)
  show "piReady (the (loop L P env s))" "piPowered (the (loop L P env s))"
    using framed_ready_line [OF assms(4,5,6) b(1,2) assms(7)] by (simp_all add: l port_defs)
  show "pin12 (the (loop L P env s)) = pin12 s"
    using b(3) by (simp add: l f port_defs ready_line_flags [OF assms(7)])
qed

text \<open>
  The invariant of claim C1 at work, on a run of the whole program: \<^verbatim>\<open>setup\<close>, then one
  pass of \<^verbatim>\<open>loop\<close> in which the device link delivers the line \<open>READY\<close>. The run ends
  with the device marked ready, and powered.
\<close>

theorem C1_ready_implies_powered_witness:
  "sketch fixture board LOW True [True] [quiet\<lparr>available := ''READY\<newline>''\<rparr>] \<noteq> None
   \<and> piReady (the (sketch fixture board LOW True [True]
                     [quiet\<lparr>available := ''READY\<newline>''\<rparr>]))
   \<and> piPowered (the (sketch fixture board LOW True [True]
                     [quiet\<lparr>available := ''READY\<newline>''\<rparr>]))"
proof -
  let ?env = "quiet\<lparr>available := ''READY\<newline>''\<rparr>"
  obtain s0 where s0: "setup_sketch board True [True] (globals LOW) = Some s0"
    using setup_returns [of board True "[]" LOW] by auto
  have line: "list_all printable ''READY''" "length ''READY'' < 127"
    "CHR ''\<newline>'' = LF \<or> CHR ''\<newline>'' = CR" "is_ready_line (''READY'' @ [CHR ''\<newline>''])"
    by code_simp+
  have env: "wifi_status ?env = True # []" "polled ?env = []"
    "available ?env = ''READY'' @ [CHR ''\<newline>'']"
    by (simp_all add: quiet_def)
  note pass = loop_ready_line [OF env line setup_state(6,7) [OF s0], of fixture board]
  have r: "sketch fixture board LOW True [True] [?env] = loop fixture board ?env s0"
    by (simp add: sketch_def s0 split: option.splits)
  then have "sketch fixture board LOW True [True] [?env]
               = Some (the (sketch fixture board LOW True [True] [?env]))"
    using pass(1) by auto
  from C1_ready_implies_powered [OF this] pass(1,2) r show ?thesis
    by (simp add: ready_implies_powered_def)
qed

end
